theory Spec2Isabelle
  imports Complex_Main
begin

section \<open>Launchkey Mini MK4 37 control-surface drivers\<close>

text \<open>
  The repository holds two drivers for the same device, each a class with the methods
  \<open>update_button_leds\<close>, \<open>update_pad_leds\<close> and \<open>midi_event\<close>:
  \<^item> \<open>zynthian_ctrldev_launchkey_mini_mk4_37\<close>, the transport variant (relative encoders,
    knobs on CC 85..92); its definitions carry the prefix \<open>mini_\<close>;
  \<^item> \<open>zynthian_ctrldev_launchkey_mk4_37\<close>, the pickup variant (absolute knobs on CC 21..28
    with soft takeover); its definitions carry the prefix \<open>mk4_\<close>.

  Conventions of the embedding:
  \<^item> A Python float is the real number it denotes. The value of \<open>time()\<close> is the argument
    \<open>now\<close> of an event, and differences of clock readings are exact. The soft-takeover
    test of the pickup variant is computed as the code computes it, in IEEE 754 double
    precision: each operation is the exact one followed by \<open>double_round\<close>. The level that
    the mixer nudge of the transport variant writes is not rounded.
  \<^item> An event \<open>ev\<close> is a list of bytes. \<open>ev[i]\<close> beyond the end raises \<open>IndexError\<close>.
    On a byte \<open>b\<close>, \<open>(b >> 4) & 0x0F\<close> is \<open>(b div 16) mod 16\<close>, \<open>b & 0x0F\<close> is \<open>b mod 16\<close>,
    \<open>b & 0x7F\<close> is \<open>b mod 128\<close>, and \<open>0xB0 | c\<close> with \<open>c < 16\<close> is \<open>176 + c\<close>.
  \<^item> Calls into the host and the device are recorded, in order, as a list of effects.
    Device writes and \<open>send_cuia\<close> are taken not to raise. The mixer is a store that
    \<open>set_level\<close>, \<open>set_solo\<close> and \<open>set_mute\<close> update.
\<close>

subsection \<open>Errors, host objects and effects\<close>

datatype error = IndexError | AttributeError | HostError

text \<open>
  What \<open>chain.mixer_chan\<close> can be: no such attribute, \<open>None\<close>, or a channel number; and what
  \<open>chain_manager.get_chain_by_position(i, midi=False)\<close> can do: raise, return \<open>None\<close>, or
  return a chain object.
\<close>

datatype mixer_attr = AttrMissing | AttrNone | AttrChan int

datatype lookup = LookupRaises | NoChain | Chain mixer_attr

datatype cuia_arg = ArgInt int | ArgStr string

record processor =
  preset_list :: "string list option"
  preset_index :: "int option"

datatype effect =
    SendCuia string "cuia_arg list"
  | SetLevel int real
  | SetSolo int int
  | SetMute int int
  | SetPreset int
  | SelectBank nat
  | WriteZynmidi "nat list"
  | DevSendNoteOn "nat option" nat nat nat
  | DevSendCC "nat option" nat nat nat

text \<open>
  The host as the driver sees it. \<open>solo\<close> and \<open>mute\<close> are \<open>None\<close> on a channel where
  \<open>get_solo\<close>, \<open>get_mute\<close> raise. \<open>active_processor\<close> is \<open>None\<close> when there is no active
  chain, no current processor, or the lookup raises. The two flags are
  \<open>hasattr(self, 'chain_manager')\<close> and \<open>hasattr(self, 'zynmixer')\<close>.
\<close>

record host =
  has_chain_manager :: bool
  has_zynmixer :: bool
  chains :: "nat \<Rightarrow> lookup"
  solo :: "int \<Rightarrow> bool option"
  mute :: "int \<Rightarrow> bool option"
  level :: "int \<Rightarrow> real"
  active_processor :: "processor option"

subsection \<open>Driver state\<close>

text \<open>The fields both classes set in \<open>__init__\<close>, then the fields of each variant.\<close>

record driver =
  shift :: bool
  press_times :: "nat \<rightharpoonup> real"
  knob_bank :: int
  idev_out :: "nat option"

record mini_driver = driver +
  last_select_back_time :: real

record mk4_driver = driver +
  mixer_synced :: "nat \<rightharpoonup> bool"
  last_zynpot_values :: "nat \<rightharpoonup> nat"

text \<open>What one call of a method leaves behind: the return value, both states, the effects.\<close>

record 'd outcome =
  handled :: bool
  drv :: 'd
  hst :: host
  effects :: "effect list"

definition done_with :: "bool \<Rightarrow> 'd \<Rightarrow> host \<Rightarrow> effect list \<Rightarrow> error + 'd outcome" where
  "done_with b d h es = Inr \<lparr>handled = b, drv = d, hst = h, effects = es\<rparr>"

subsection \<open>LED refresh\<close>

text \<open>\<open>update_button_leds\<close>: six navigation buttons lit, then the two bank indicators.\<close>

definition update_button_leds :: "'a driver_scheme \<Rightarrow> effect list" where
  "update_button_leds d =
     (case idev_out d of
        None \<Rightarrow> []
      | Some out \<Rightarrow>
          map (\<lambda>cc. DevSendCC (Some out) 0 cc 127) [104, 105, 102, 103, 106, 107]
          @ [DevSendCC (Some out) 0 51 (if knob_bank d = 0 then 127 else 0),
             DevSendCC (Some out) 0 52 (if knob_bank d = 1 then 127 else 0)])"

text \<open>
  The body of the first loop of \<open>update_pad_leds\<close> at position \<open>i\<close>: the velocity of the solo
  pad. The guarded lookup with \<open>hasattr\<close> yields 0 without raising; a raising lookup or a
  raising \<open>get_solo\<close> is caught by the inner \<open>except\<close>, which yields 0 too.
\<close>

definition solo_vel :: "nat \<Rightarrow> nat \<Rightarrow> host \<Rightarrow> nat \<Rightarrow> nat" where
  "solo_vel on off h i =
     (case chains h i of
        LookupRaises \<Rightarrow> 0
      | NoChain \<Rightarrow> 0
      | Chain a \<Rightarrow>
          (case a of
             AttrMissing \<Rightarrow> 0
           | AttrNone \<Rightarrow> 0
           | AttrChan c \<Rightarrow>
               if c < 17 then
                 (case solo h c of
                    None \<Rightarrow> 0
                  | Some is_soloed \<Rightarrow> if is_soloed then on else off)
               else 0))"

text \<open>The body of the second loop: the velocity of the mute pad.\<close>

definition mute_vel :: "host \<Rightarrow> nat \<Rightarrow> nat" where
  "mute_vel h i =
     (case chains h i of
        LookupRaises \<Rightarrow> 0
      | NoChain \<Rightarrow> 0
      | Chain a \<Rightarrow>
          (case a of
             AttrMissing \<Rightarrow> 0
           | AttrNone \<Rightarrow> 0
           | AttrChan c \<Rightarrow>
               if c < 17 then
                 (case mute h c of
                    None \<Rightarrow> 0
                  | Some is_muted \<Rightarrow> if is_muted then 5 else 64)
               else 0))"

text \<open>
  \<open>update_pad_leds\<close>, with the two solo velocities as parameters (the classes differ only
  there): nothing without an output device or without the two attributes; otherwise one
  note-on per solo pad 96..103, then one per mute pad 112..119.
\<close>

definition update_pad_leds :: "nat \<Rightarrow> nat \<Rightarrow> 'a driver_scheme \<Rightarrow> host \<Rightarrow> effect list" where
  "update_pad_leds on off d h =
     (case idev_out d of
        None \<Rightarrow> []
      | Some out \<Rightarrow>
          if \<not> has_chain_manager h \<or> \<not> has_zynmixer h then []
          else map (\<lambda>i. DevSendNoteOn (Some out) 0 (96 + i) (solo_vel on off h i)) [0..<8]
             @ map (\<lambda>i. DevSendNoteOn (Some out) 0 (112 + i) (mute_vel h i)) [0..<8])"

definition mini_update_pad_leds :: "'a driver_scheme \<Rightarrow> host \<Rightarrow> effect list" where
  "mini_update_pad_leds = update_pad_leds 14 118"

definition mk4_update_pad_leds :: "'a driver_scheme \<Rightarrow> host \<Rightarrow> effect list" where
  "mk4_update_pad_leds = update_pad_leds 5 10"

subsection \<open>Event decoding shared by both variants\<close>

text \<open>
  The test \<open>chain and chain.mixer_chan is not None and chain.mixer_chan < 17\<close> of
  \<open>midi_event\<close> at a position: the channel when it passes, \<open>None\<close> when it does not, an error
  when an attribute is missing (no \<open>hasattr\<close> guards it here) or the lookup raises.
\<close>

definition valid_chan :: "host \<Rightarrow> nat \<Rightarrow> error + int option" where
  "valid_chan h pos =
     (if \<not> has_chain_manager h then Inl AttributeError
      else case chains h pos of
             LookupRaises \<Rightarrow> Inl HostError
           | NoChain \<Rightarrow> Inr None
           | Chain a \<Rightarrow>
               (case a of
                  AttrMissing \<Rightarrow> Inl AttributeError
                | AttrNone \<Rightarrow> Inr None
                | AttrChan c \<Rightarrow> Inr (if c < 17 then Some c else None)))"

text \<open>
  The note branch of \<open>midi_event\<close> (the same text in both classes; \<open>upl\<close> is the class's
  \<open>update_pad_leds\<close>). Pad notes 96..119 are consumed; a note-on with velocity above 0 on
  a solo pad 96..103 or a mute pad 112..119 toggles the channel and refreshes the LEDs.
  Every other note is written to the host's MIDI routing, and \<open>True\<close> is returned.
\<close>

definition note_event ::
  "('a driver_scheme \<Rightarrow> host \<Rightarrow> effect list) \<Rightarrow> nat list \<Rightarrow> nat \<Rightarrow> nat \<Rightarrow> nat \<Rightarrow>
   'a driver_scheme \<Rightarrow> host \<Rightarrow> error + 'a driver_scheme outcome" where
  "note_event upl ev evtype note vel d h =
     (if 96 \<le> note \<and> note \<le> 119 then
        if 96 \<le> note \<and> note \<le> 103 \<and> evtype = 9 \<and> vel > 0 then
          (case valid_chan h (note - 96) of
             Inl e \<Rightarrow> Inl e
           | Inr None \<Rightarrow> done_with True d h []
           | Inr (Some c) \<Rightarrow>
               if \<not> has_zynmixer h then Inl AttributeError
               else (case solo h c of
                       None \<Rightarrow> Inl HostError
                     | Some current_solo \<Rightarrow>
                         let v = (if current_solo then 0 else 1);
                             h' = h\<lparr>solo := (solo h)(c := Some (v \<noteq> 0))\<rparr>
                         in done_with True d h' (SetSolo c v # upl d h')))
        else if 112 \<le> note \<and> note \<le> 119 \<and> evtype = 9 \<and> vel > 0 then
          (case valid_chan h (note - 112) of
             Inl e \<Rightarrow> Inl e
           | Inr None \<Rightarrow> done_with True d h []
           | Inr (Some c) \<Rightarrow>
               if \<not> has_zynmixer h then Inl AttributeError
               else (case mute h c of
                       None \<Rightarrow> Inl HostError
                     | Some current_mute \<Rightarrow>
                         let v = (if current_mute then 0 else 1);
                             h' = h\<lparr>mute := (mute h)(c := Some (v \<noteq> 0))\<rparr>
                         in done_with True d h' (SetMute c v # upl d h')))
        else done_with True d h []
      else done_with True d h [WriteZynmidi ev])"

text \<open>
  The press/release block of a hold-classified button (three copies in each class):
  a press stores \<open>time()\<close> under the controller number, with LED feedback when \<open>led\<close>;
  a release with a stored press sends one ZYNSWITCH action classified by the duration and
  deletes the entry; a release without one does nothing.
\<close>

definition hold_kind :: "real \<Rightarrow> string" where
  "hold_kind duration =
     (if duration < 0.5 then ''S'' else if duration < 1.5 then ''B'' else ''L'')"

definition press_release ::
  "int \<Rightarrow> bool \<Rightarrow> real \<Rightarrow> nat \<Rightarrow> nat \<Rightarrow> 'a driver_scheme \<Rightarrow> host \<Rightarrow>
   error + 'a driver_scheme outcome" where
  "press_release idx led now ccnum ccval d h =
     (if ccval > 0 then
        done_with True (d\<lparr>press_times := (press_times d)(ccnum \<mapsto> now)\<rparr>) h
          (if led then [DevSendCC (idev_out d) 0 ccnum 127] else [])
      else case press_times d ccnum of
             None \<Rightarrow> done_with True d h []
           | Some start \<Rightarrow>
               done_with True (d\<lparr>press_times := (press_times d)(ccnum := None)\<rparr>) h
                 [SendCuia ''ZYNSWITCH'' [ArgInt idx, ArgStr (hold_kind (now - start))]])"

text \<open>The dictionary \<open>{74: 0, 75: 1, 76: 3, 77: 2}\<close>, read at a key it holds.\<close>

definition zynswitch_index :: "nat \<Rightarrow> int" where
  "zynswitch_index ccnum =
     (if ccnum = 74 then 0 else if ccnum = 75 then 1 else if ccnum = 76 then 3 else 2)"

text \<open>
  The branch for CC 74..77: with shift held, CC 76 is the metronome button (TEMPO on a
  press, nothing on a release, no press time kept); otherwise the press/release block.
\<close>

definition zynswitch_event ::
  "real \<Rightarrow> nat \<Rightarrow> nat \<Rightarrow> 'a driver_scheme \<Rightarrow> host \<Rightarrow> error + 'a driver_scheme outcome" where
  "zynswitch_event now ccnum ccval d h =
     (if shift d \<and> ccnum = 76 then
        done_with True d h (if ccval > 0 then [SendCuia ''TEMPO'' []] else [])
      else press_release (zynswitch_index ccnum) False now ccnum ccval d h)"

text \<open>
  The bank buttons CC 51 (\<open>step = -1\<close>) and CC 52 (\<open>step = 1\<close>) on an activation: an arrow
  action with shift held, otherwise the cyclic bank change followed by \<open>reset\<close> (what the
  class clears on a bank change) and the indicator refresh.
\<close>

definition bank_button ::
  "string \<Rightarrow> int \<Rightarrow> ('a driver_scheme \<Rightarrow> 'a driver_scheme) \<Rightarrow> 'a driver_scheme \<Rightarrow> host \<Rightarrow>
   error + 'a driver_scheme outcome" where
  "bank_button arrow step reset d h =
     (if shift d then done_with True d h [SendCuia arrow []]
      else let d' = reset (d\<lparr>knob_bank := (knob_bank d + step) mod 3\<rparr>)
           in done_with True d' h (update_button_leds d'))"

text \<open>PLAY (CC 0x73) and RECORD (CC 0x75) on a press.\<close>

definition transport_button ::
  "string \<Rightarrow> string \<Rightarrow> 'a driver_scheme \<Rightarrow> host \<Rightarrow> error + 'a driver_scheme outcome" where
  "transport_button shifted plain d h =
     done_with True d h [SendCuia (if shift d then shifted else plain) []]"

subsection \<open>The transport variant (mini): relative encoders\<close>

text \<open>
  The decode of a relative encoder value, as both knob branches of the class write it:
  below 64 is counter-clockwise, above 64 is clockwise, with the values 1 and 127 singled
  out as a step of one.
\<close>

definition relative_delta :: "nat \<Rightarrow> int" where
  "relative_delta ccval =
     (if ccval = 1 \<or> ccval < 64 then (if ccval = 1 then - 1 else - (64 - int ccval))
      else if ccval = 127 \<or> ccval > 64 then (if ccval = 127 then 1 else int ccval - 64)
      else 0)"

text \<open>Bank 0, CC 85..92: nudge the level of the mixer channel at the knob's position.\<close>

definition mini_mixer_knob ::
  "nat \<Rightarrow> nat \<Rightarrow> 'a driver_scheme \<Rightarrow> host \<Rightarrow> error + 'a driver_scheme outcome" where
  "mini_mixer_knob ccnum ccval d h =
     (let mixer_channel = ccnum - 84 in
      case valid_chan h (mixer_channel - 1) of
        Inl e \<Rightarrow> Inl e
      | Inr None \<Rightarrow> done_with True d h []
      | Inr (Some c) \<Rightarrow>
          let delta = relative_delta ccval in
          if delta \<noteq> 0 then
            if \<not> has_zynmixer h then Inl AttributeError
            else let current_level = level h c;
                     new_level = max 0 (min 1 (current_level + real_of_int delta * 0.01))
                 in done_with True d (h\<lparr>level := (level h)(c := new_level)\<rparr>)
                      [SetLevel c new_level]
          else done_with True d h [])"

text \<open>Bank 1, CC 85..88: a ZYNPOT action with the decoded delta, when it is not zero.\<close>

definition mini_zynpot_knob ::
  "nat \<Rightarrow> nat \<Rightarrow> 'a driver_scheme \<Rightarrow> host \<Rightarrow> error + 'a driver_scheme outcome" where
  "mini_zynpot_knob ccnum ccval d h =
     (let zynpot_index = int ccnum - 85; delta = relative_delta ccval in
      done_with True d h
        (if delta \<noteq> 0 then [SendCuia ''ZYNPOT'' [ArgInt zynpot_index, ArgInt delta]] else []))"

text \<open>
  Bank 1, CC 89: browse the presets of the active processor, wrapping at both ends. The
  whole body is inside a \<open>try\<close>; \<open>set_preset\<close> is recorded as an effect.
\<close>

definition mini_preset_knob ::
  "nat \<Rightarrow> 'a driver_scheme \<Rightarrow> host \<Rightarrow> error + 'a driver_scheme outcome" where
  "mini_preset_knob ccval d h =
     (let delta = (if ccval = 1 \<or> ccval < 64 then - 1
                   else if ccval = 127 \<or> ccval > 64 then 1 else (0::int)) in
      if delta \<noteq> 0 then
        (case active_processor h of
           None \<Rightarrow> done_with True d h []
         | Some p \<Rightarrow>
             (case preset_list p of
                None \<Rightarrow> done_with True d h []
              | Some pl \<Rightarrow>
                  if pl = [] then done_with True d h []
                  else
                    let current_index = (case preset_index p of None \<Rightarrow> 0 | Some k \<Rightarrow> k);
                        new_index = current_index + delta;
                        new_index = (if new_index < 0 then int (length pl) - 1
                                     else if new_index \<ge> int (length pl) then 0
                                     else new_index)
                    in done_with True d h
                         [SetPreset new_index,
                          SendCuia ''refresh_screen'' [ArgStr ''control''],
                          SendCuia ''refresh_screen'' [ArgStr ''audio_mixer'']]))
      else done_with True d h [])"

text \<open>
  Bank 1, CC 90: SELECT on clockwise, BACK on counter-clockwise, behind the 600 ms
  debounce on \<open>last_select_back_time\<close>.
\<close>

definition mini_select_back_knob ::
  "real \<Rightarrow> nat \<Rightarrow> 'a mini_driver_scheme \<Rightarrow> host \<Rightarrow> error + 'a mini_driver_scheme outcome" where
  "mini_select_back_knob now ccval d h =
     (let current_time = now in
      if current_time - last_select_back_time d < 0.6 then done_with True d h []
      else
        let d' = d\<lparr>last_select_back_time := current_time\<rparr> in
        if ccval = 1 \<or> ccval < 64 then done_with True d' h [SendCuia ''BACK'' []]
        else if ccval = 127 \<or> ccval > 64 then
          done_with True d' h [SendCuia ''ZYNSWITCH'' [ArgInt 3, ArgStr ''S'']]
        else done_with True d' h [])"

text \<open>Bank 1, CC 91 and CC 92: one arrow action per direction.\<close>

definition mini_arrow_knob ::
  "string \<Rightarrow> string \<Rightarrow> nat \<Rightarrow> 'a driver_scheme \<Rightarrow> host \<Rightarrow> error + 'a driver_scheme outcome" where
  "mini_arrow_knob ccw cw ccval d h =
     (if ccval = 1 \<or> ccval < 64 then done_with True d h [SendCuia ccw []]
      else if ccval = 127 \<or> ccval > 64 then done_with True d h [SendCuia cw []]
      else done_with True d h [])"

text \<open>
  The knob branch \<open>84 < ccnum < 93\<close>, by bank. A bank outside 0..2 leaves the chain of
  \<open>elif\<close>s, and the method ends in its last line, \<open>return False\<close>.
\<close>

definition mini_knob_event ::
  "real \<Rightarrow> nat \<Rightarrow> nat \<Rightarrow> nat \<Rightarrow> 'a mini_driver_scheme \<Rightarrow> host \<Rightarrow>
   error + 'a mini_driver_scheme outcome" where
  "mini_knob_event now ev_chan ccnum ccval d h =
     (if knob_bank d = 0 then mini_mixer_knob ccnum ccval d h
      else if knob_bank d = 1 then
        if 84 < ccnum \<and> ccnum < 89 then mini_zynpot_knob ccnum ccval d h
        else if ccnum = 89 then mini_preset_knob ccval d h
        else if ccnum = 90 then mini_select_back_knob now ccval d h
        else if ccnum = 91 then mini_arrow_knob ''ARROW_LEFT'' ''ARROW_RIGHT'' ccval d h
        else if ccnum = 92 then mini_arrow_knob ''ARROW_UP'' ''ARROW_DOWN'' ccval d h
        else done_with True d h []
      else if knob_bank d = 2 then
        let new_ccnum = ccnum - 85 + 24
        in done_with True d h [WriteZynmidi [176 + ev_chan, new_ccnum, ccval]]
      else done_with False d h [])"

text \<open>The dictionary \<open>button_commands\<close> of the class.\<close>

definition mini_button_commands :: "nat \<rightharpoonup> string" where
  "mini_button_commands =
     [107 \<mapsto> ''PRESET'', 105 \<mapsto> ''MENU'', 102 \<mapsto> ''ARROW_RIGHT'',
      103 \<mapsto> ''ARROW_LEFT'', 106 \<mapsto> ''BACK'']"

text \<open>The control-change branch of \<open>midi_event\<close>, one \<open>elif\<close> per line of the chain.\<close>

definition mini_cc_event ::
  "real \<Rightarrow> nat \<Rightarrow> nat \<Rightarrow> nat \<Rightarrow> 'a mini_driver_scheme \<Rightarrow> host \<Rightarrow>
   error + 'a mini_driver_scheme outcome" where
  "mini_cc_event now ev_chan ccnum ccval d h =
     (if ccnum = 51 \<and> ccval > 0 then bank_button ''ARROW_UP'' (- 1) (\<lambda>x. x) d h
      else if ccnum = 52 \<and> ccval > 0 then bank_button ''ARROW_DOWN'' 1 (\<lambda>x. x) d h
      else if ccnum = 63 then done_with True (d\<lparr>shift := (ccval \<noteq> 0)\<rparr>) h []
      else if ccnum = 104 then press_release 3 True now ccnum ccval d h
      else if 84 < ccnum \<and> ccnum < 93 then mini_knob_event now ev_chan ccnum ccval d h
      else if ccnum \<in> {74, 75, 76, 77} then zynswitch_event now ccnum ccval d h
      else if ccnum = 115 \<and> ccval > 0 then
        transport_button ''TOGGLE_MIDI_PLAY'' ''TOGGLE_PLAY'' d h
      else if ccnum = 117 \<and> ccval > 0 then
        transport_button ''TOGGLE_MIDI_RECORD'' ''TOGGLE_RECORD'' d h
      else if mini_button_commands ccnum \<noteq> None \<and> ccval > 0 then
        done_with True d h
          [DevSendCC (idev_out d) 0 ccnum 127, SendCuia (the (mini_button_commands ccnum)) []]
      else if ccnum = 0 \<or> ccval = 0 then done_with True d h []
      else done_with False d h [])"

text \<open>
  \<open>midi_event\<close> of the transport variant: the status byte is read first, then the data
  bytes the branch needs; an index beyond the event raises.
\<close>

definition mini_midi_event ::
  "real \<Rightarrow> nat list \<Rightarrow> 'a mini_driver_scheme \<Rightarrow> host \<Rightarrow> error + 'a mini_driver_scheme outcome" where
  "mini_midi_event now ev d h =
     (if length ev < 1 then Inl IndexError
      else
        let evtype = (ev ! 0 div 16) mod 16; ev_chan = ev ! 0 mod 16 in
        if evtype = 9 \<or> evtype = 8 then
          if length ev < 3 then Inl IndexError
          else note_event mini_update_pad_leds ev evtype (ev ! 1 mod 128) (ev ! 2 mod 128) d h
        else if evtype = 11 then
          if length ev < 3 then Inl IndexError
          else mini_cc_event now ev_chan (ev ! 1 mod 128) (ev ! 2 mod 128) d h
        else if evtype = 12 then
          if length ev < 2 then Inl IndexError
          else done_with True d h [SelectBank (ev ! 1 mod 128 + 1)]
        else done_with False d h [])"

subsection \<open>Double-precision arithmetic\<close>

text \<open>
  Rounding of a real number to the nearest IEEE 754 double (53-bit significand, ties to
  even). The magnitude is scaled by powers of two until it lies in \<open>[2^52, 2^53)\<close>, where
  the doubles are the integers; scaling up stops after 1074 steps, where the doubles
  are the multiples of \<open>2^-1074\<close> (the subnormal range). Overflow to infinity is not
  modelled: levels and knob positions lie in \<open>[0,1]\<close>.
\<close>

fun scale_up :: "nat \<Rightarrow> real \<Rightarrow> nat \<Rightarrow> real \<times> nat" where
  "scale_up fuel m k =
     (if fuel = 0 \<or> 2 ^ 52 \<le> m then (m, k) else scale_up (fuel - 1) (2 * m) (k + 1))"

fun scale_down :: "nat \<Rightarrow> real \<Rightarrow> nat \<Rightarrow> real \<times> nat" where
  "scale_down fuel m j =
     (if fuel = 0 \<or> m < 2 ^ 53 then (m, j) else scale_down (fuel - 1) (m / 2) (j + 1))"

declare scale_up.simps [simp del] scale_down.simps [simp del]

definition round_half_even :: "real \<Rightarrow> int" where
  "round_half_even y =
     (let f = \<lfloor>y\<rfloor>; r = y - of_int f
      in if r < 1 / 2 then f else if 1 / 2 < r then f + 1 else if even f then f else f + 1)"

definition double_round :: "real \<Rightarrow> real" where
  "double_round x =
     (if \<bar>x\<bar> < 2 ^ 53 then
        (case scale_up 1074 \<bar>x\<bar> 0 of
           (m, k) \<Rightarrow> (if x < 0 then - 1 else 1) * real_of_int (round_half_even m) / 2 ^ k)
      else
        (case scale_down 971 \<bar>x\<bar> 0 of
           (m, j) \<Rightarrow> (if x < 0 then - 1 else 1) * real_of_int (round_half_even m) * 2 ^ j))"

subsection \<open>The pickup variant (mk4): soft takeover and relative-by-difference\<close>

text \<open>
  Bank 0, CC 21..26: the level follows the knob once the knob has come within 0.02 of
  the current level; CC 27 and 28 do nothing. The three float operations of the test are
  the division \<open>ccval / 127.0\<close>, the subtraction \<open>new_level - current_level\<close> and the
  reading of the literal \<open>0.02\<close>; \<open>abs\<close> and \<open><\<close> are exact on doubles.
\<close>

definition mk4_mixer_knob ::
  "nat \<Rightarrow> nat \<Rightarrow> 'a mk4_driver_scheme \<Rightarrow> host \<Rightarrow> error + 'a mk4_driver_scheme outcome" where
  "mk4_mixer_knob ccnum ccval d h =
     (if 20 < ccnum \<and> ccnum < 27 then
        (let mixer_channel = ccnum - 20 in
         case valid_chan h (mixer_channel - 1) of
           Inl e \<Rightarrow> Inl e
         | Inr None \<Rightarrow> done_with True d h []
         | Inr (Some c) \<Rightarrow>
             if \<not> has_zynmixer h then Inl AttributeError
             else
               let current_level = level h c;
                   new_level = double_round (real ccval / 127)
               in if mixer_synced d ccnum = None then
                    if \<bar>double_round (new_level - current_level)\<bar> < double_round 0.02 then
                      done_with True (d\<lparr>mixer_synced := (mixer_synced d)(ccnum \<mapsto> True)\<rparr>)
                        (h\<lparr>level := (level h)(c := new_level)\<rparr>) [SetLevel c new_level]
                    else done_with True d h []
                  else done_with True d (h\<lparr>level := (level h)(c := new_level)\<rparr>)
                         [SetLevel c new_level])
      else done_with True d h [])"

text \<open>
  Bank 1, CC 21..24: the first value of a knob is stored; later values send the
  difference to the stored one, folded into one turn of the 7-bit range, and are stored
  when the difference is not zero.
\<close>

definition wrap_delta :: "int \<Rightarrow> int" where
  "wrap_delta delta = (if delta > 64 then delta - 128 else if delta < - 64 then delta + 128 else delta)"

definition mk4_zynpot_knob ::
  "nat \<Rightarrow> nat \<Rightarrow> 'a mk4_driver_scheme \<Rightarrow> host \<Rightarrow> error + 'a mk4_driver_scheme outcome" where
  "mk4_zynpot_knob ccnum ccval d h =
     (let zynpot_index = int ccnum - 21 in
      case last_zynpot_values d ccnum of
        None \<Rightarrow> done_with True (d\<lparr>last_zynpot_values := (last_zynpot_values d)(ccnum \<mapsto> ccval)\<rparr>) h []
      | Some last_val \<Rightarrow>
          let delta = wrap_delta (int ccval - int last_val) in
          if delta \<noteq> 0 then
            done_with True (d\<lparr>last_zynpot_values := (last_zynpot_values d)(ccnum \<mapsto> ccval)\<rparr>) h
              [SendCuia ''ZYNPOT'' [ArgInt zynpot_index, ArgInt delta]]
          else done_with True d h [])"

text \<open>
  The knob branch \<open>20 < ccnum < 29\<close>. The class has no branch for bank 2: there the
  method ends in its last line, \<open>return False\<close>.
\<close>

definition mk4_knob_event ::
  "nat \<Rightarrow> nat \<Rightarrow> nat \<Rightarrow> 'a mk4_driver_scheme \<Rightarrow> host \<Rightarrow> error + 'a mk4_driver_scheme outcome" where
  "mk4_knob_event ev_chan ccnum ccval d h =
     (if knob_bank d = 0 then mk4_mixer_knob ccnum ccval d h
      else if knob_bank d = 1 then
        if 20 < ccnum \<and> ccnum < 25 then mk4_zynpot_knob ccnum ccval d h
        else
          let new_ccnum = ccnum - 25 + 20
          in done_with True d h [WriteZynmidi [176 + ev_chan, new_ccnum, ccval]]
      else done_with False d h [])"

definition mk4_button_commands :: "nat \<rightharpoonup> string" where
  "mk4_button_commands =
     [106 \<mapsto> ''PRESET'', 107 \<mapsto> ''MENU'', 102 \<mapsto> ''ARROW_RIGHT'',
      103 \<mapsto> ''ARROW_LEFT'', 104 \<mapsto> ''BACK'']"

text \<open>What a bank change of this class clears: \<open>self.mixer_synced.clear()\<close>.\<close>

definition mk4_bank_reset :: "'a mk4_driver_scheme \<Rightarrow> 'a mk4_driver_scheme" where
  "mk4_bank_reset d = d\<lparr>mixer_synced := Map.empty\<rparr>"

definition mk4_cc_event ::
  "real \<Rightarrow> nat \<Rightarrow> nat \<Rightarrow> nat \<Rightarrow> 'a mk4_driver_scheme \<Rightarrow> host \<Rightarrow>
   error + 'a mk4_driver_scheme outcome" where
  "mk4_cc_event now ev_chan ccnum ccval d h =
     (if ccnum = 51 \<and> ccval > 0 then bank_button ''ARROW_UP'' (- 1) mk4_bank_reset d h
      else if ccnum = 52 \<and> ccval > 0 then bank_button ''ARROW_DOWN'' 1 mk4_bank_reset d h
      else if ccnum = 63 then done_with True (d\<lparr>shift := (ccval \<noteq> 0)\<rparr>) h []
      else if ccnum = 105 then press_release 3 True now ccnum ccval d h
      else if 20 < ccnum \<and> ccnum < 29 then mk4_knob_event ev_chan ccnum ccval d h
      else if ccnum \<in> {74, 75, 76, 77} then zynswitch_event now ccnum ccval d h
      else if ccnum = 115 \<and> ccval > 0 then
        transport_button ''TOGGLE_MIDI_PLAY'' ''TOGGLE_PLAY'' d h
      else if ccnum = 117 \<and> ccval > 0 then
        transport_button ''TOGGLE_MIDI_RECORD'' ''TOGGLE_RECORD'' d h
      else if mk4_button_commands ccnum \<noteq> None \<and> ccval > 0 then
        done_with True d h
          [DevSendCC (idev_out d) 0 ccnum 127, SendCuia (the (mk4_button_commands ccnum)) []]
      else if ccnum = 0 \<or> ccval = 0 then done_with True d h []
      else done_with False d h [])"

definition mk4_midi_event ::
  "real \<Rightarrow> nat list \<Rightarrow> 'a mk4_driver_scheme \<Rightarrow> host \<Rightarrow> error + 'a mk4_driver_scheme outcome" where
  "mk4_midi_event now ev d h =
     (if length ev < 1 then Inl IndexError
      else
        let evtype = (ev ! 0 div 16) mod 16; ev_chan = ev ! 0 mod 16 in
        if evtype = 9 \<or> evtype = 8 then
          if length ev < 3 then Inl IndexError
          else note_event mk4_update_pad_leds ev evtype (ev ! 1 mod 128) (ev ! 2 mod 128) d h
        else if evtype = 11 then
          if length ev < 3 then Inl IndexError
          else mk4_cc_event now ev_chan (ev ! 1 mod 128) (ev ! 2 mod 128) d h
        else if evtype = 12 then
          if length ev < 2 then Inl IndexError
          else done_with True d h [SelectBank (ev ! 1 mod 128 + 1)]
        else done_with False d h [])"

subsection \<open>Fixtures: the state after \<open>__init__\<close> and a small host\<close>

text \<open>
  The values \<open>__init__\<close> gives the fields of each class (with an output device 0), and a
  host with one chain, at position 0 on mixer channel 0, every level at one half, nothing
  soloed or muted.
\<close>

definition mini_init :: mini_driver where
  "mini_init = \<lparr>shift = False, press_times = Map.empty, knob_bank = 1, idev_out = Some 0,
                last_select_back_time = 0\<rparr>"

definition mk4_init :: mk4_driver where
  "mk4_init = \<lparr>shift = False, press_times = Map.empty, knob_bank = 0, idev_out = Some 0,
               mixer_synced = Map.empty, last_zynpot_values = Map.empty\<rparr>"

definition host0 :: host where
  "host0 = \<lparr>has_chain_manager = True, has_zynmixer = True,
            chains = (\<lambda>i. if i = 0 then Chain (AttrChan 0) else NoChain),
            solo = (\<lambda>c. Some False), mute = (\<lambda>c. Some False),
            level = (\<lambda>c. 1 / 2), active_processor = None\<rparr>"

subsection \<open>The spec's formulas, for comparison with the code\<close>

text \<open>
  The relative decode as the specification words it: \<open>[1,63]\<close> is negative with magnitude
  \<open>64 - v\<close>, \<open>[65,127]\<close> is positive with magnitude \<open>v - 64\<close>, 64 is zero.
\<close>

definition spec_relative_delta :: "nat \<Rightarrow> int" where
  "spec_relative_delta v =
     (if 1 \<le> v \<and> v \<le> 63 then - (64 - int v)
      else if 65 \<le> v \<and> v \<le> 127 then int v - 64 else 0)"

text \<open>The wraparound delta as the specification words it: \<open>((b - a + 64) mod 128) - 64\<close>.\<close>

definition spec_wrap_delta :: "nat \<Rightarrow> nat \<Rightarrow> int" where
  "spec_wrap_delta a b = ((int b - int a + 64) mod 128) - 64"

text \<open>
  The number of bytes \<open>midi_event\<close> indexes in an event with the given status byte: three
  for a note or a control change, two for a program change, one otherwise.
\<close>

definition bytes_read :: "nat \<Rightarrow> nat" where
  "bytes_read status =
     (let evtype = (status div 16) mod 16 in
      if evtype = 9 \<or> evtype = 8 \<or> evtype = 11 then 3 else if evtype = 12 then 2 else 1)"

text \<open>
  A host whose positions 1, 2 and 3 fail in three ways: a channel out of range, a chain
  without the attribute \<open>mixer_chan\<close>, a lookup that raises. Position 0 is on channel 0,
  which is soloed and not muted; the other positions have no chain.
\<close>

definition host1 :: host where
  "host1 = \<lparr>has_chain_manager = True, has_zynmixer = True,
            chains = (\<lambda>i. if i = 0 then Chain (AttrChan 0)
                          else if i = 1 then Chain (AttrChan 20)
                          else if i = 2 then Chain AttrMissing
                          else if i = 3 then LookupRaises else NoChain),
            solo = (\<lambda>c. Some True), mute = (\<lambda>c. Some False),
            level = (\<lambda>c. 1 / 2), active_processor = None\<rparr>"

text \<open>
  A host with two chains, at positions 0 and 1 on mixer channels 0 and 1, whose levels are
  the doubles \<open>0.15385826771653544\<close> and \<open>0.7837795275590551\<close>.
\<close>

definition host2 :: host where
  "host2 = \<lparr>has_chain_manager = True, has_zynmixer = True,
            chains = (\<lambda>i. if i = 0 then Chain (AttrChan 0)
                          else if i = 1 then Chain (AttrChan 1) else NoChain),
            solo = (\<lambda>c. Some False), mute = (\<lambda>c. Some False),
            level = (\<lambda>c. if c = 0 then 692916037156059 / 4503599627370496
                          else 110307162132987 / 140737488355328),
            active_processor = None\<rparr>"

section \<open>Properties\<close>

subsection \<open>Reading an event\<close>

lemma mini_cc_decode:
  "3 \<le> length ev \<Longrightarrow> (ev ! 0 div 16) mod 16 = 11 \<Longrightarrow>
   mini_midi_event now ev d h
   = mini_cc_event now (ev ! 0 mod 16) (ev ! 1 mod 128) (ev ! 2 mod 128) d h"
  by (auto simp: mini_midi_event_def Let_def)

lemma mk4_cc_decode:
  "3 \<le> length ev \<Longrightarrow> (ev ! 0 div 16) mod 16 = 11 \<Longrightarrow>
   mk4_midi_event now ev d h
   = mk4_cc_event now (ev ! 0 mod 16) (ev ! 1 mod 128) (ev ! 2 mod 128) d h"
  by (auto simp: mk4_midi_event_def Let_def)

lemma mini_note_decode:
  "3 \<le> length ev \<Longrightarrow> (ev ! 0 div 16) mod 16 = 9 \<or> (ev ! 0 div 16) mod 16 = 8 \<Longrightarrow>
   mini_midi_event now ev d h
   = note_event mini_update_pad_leds ev ((ev ! 0 div 16) mod 16) (ev ! 1 mod 128)
       (ev ! 2 mod 128) d h"
  by (auto simp: mini_midi_event_def Let_def)

lemma mk4_note_decode:
  "3 \<le> length ev \<Longrightarrow> (ev ! 0 div 16) mod 16 = 9 \<or> (ev ! 0 div 16) mod 16 = 8 \<Longrightarrow>
   mk4_midi_event now ev d h
   = note_event mk4_update_pad_leds ev ((ev ! 0 div 16) mod 16) (ev ! 1 mod 128)
       (ev ! 2 mod 128) d h"
  by (auto simp: mk4_midi_event_def Let_def)

subsection \<open>Lookups and note events\<close>

lemma valid_chan_returns:
  assumes "has_chain_manager h"
    and "\<And>i. chains h i \<noteq> LookupRaises \<and> chains h i \<noteq> Chain AttrMissing"
  shows "\<exists>r. valid_chan h p = Inr r"
  using assms(2) [of p] assms(1)
  by (auto simp: valid_chan_def split: lookup.splits mixer_attr.splits)

lemma update_pad_leds_no_forward: "WriteZynmidi x \<notin> set (update_pad_leds on off d h)"
  by (auto simp: update_pad_leds_def split: option.splits)

lemma note_event_pad:
  assumes "has_chain_manager h" and "has_zynmixer h"
    and "\<And>i. chains h i \<noteq> LookupRaises \<and> chains h i \<noteq> Chain AttrMissing"
    and "\<And>c. solo h c \<noteq> None \<and> mute h c \<noteq> None"
    and "\<And>x d' h'. WriteZynmidi x \<notin> set (upl d' h')"
    and "96 \<le> n" and "n \<le> 119"
  shows "\<exists>out. note_event upl ev t n v d h = Inr out \<and> handled out \<and>
               (\<forall>x. WriteZynmidi x \<notin> set (effects out))"
proof -
  obtain r1 where r1: "valid_chan h (n - 96) = Inr r1"
    using valid_chan_returns [OF assms(1) assms(3)] by blast
  obtain r2 where r2: "valid_chan h (n - 112) = Inr r2"
    using valid_chan_returns [OF assms(1) assms(3)] by blast
  have s: "\<And>c. \<exists>b. solo h c = Some b" and m: "\<And>c. \<exists>b. mute h c = Some b"
    using assms(4) by auto
  show ?thesis
  proof (cases "96 \<le> n \<and> n \<le> 103 \<and> t = 9 \<and> v > 0")
    case True
    show ?thesis
    proof (cases r1)
      case None
      then show ?thesis using True r1 by (simp add: note_event_def done_with_def)
    next
      case (Some c)
      obtain b where "solo h c = Some b" using s by blast
      then show ?thesis
        using True r1 Some assms(2) assms(5)
        by (simp add: note_event_def done_with_def Let_def)
    qed
  next
    case nosolo: False
    show ?thesis
    proof (cases "112 \<le> n \<and> n \<le> 119 \<and> t = 9 \<and> v > 0")
      case True
      show ?thesis
      proof (cases r2)
        case None
        then show ?thesis using True nosolo r2 by (simp add: note_event_def done_with_def)
      next
        case (Some c)
        obtain b where "mute h c = Some b" using m by blast
        then show ?thesis
          using True nosolo r2 Some assms(2) assms(5)
          by (simp add: note_event_def done_with_def Let_def)
      qed
    next
      case False
      then show ?thesis
        using nosolo assms(6,7) by (auto simp: note_event_def done_with_def)
    qed
  qed
qed

lemma note_event_keyboard:
  "\<not> (96 \<le> n \<and> n \<le> 119) \<Longrightarrow>
   note_event upl ev t n v d h = done_with True d h [WriteZynmidi ev]"
  by (auto simp: note_event_def)


subsection \<open>C1: relative decode of the transport variant\<close>

lemma relative_delta_zero_iff: "relative_delta v = 0 \<longleftrightarrow> v = 64"
  by (auto simp: relative_delta_def)

lemma mini_zynpot_event:
  assumes "3 \<le> length ev" "(ev ! 0 div 16) mod 16 = 11" "ev ! 1 mod 128 = cc"
    and "ev ! 2 mod 128 = v" "knob_bank d = 1" "84 < cc" "cc < 89"
  shows "mini_midi_event now ev d h
         = done_with True d h
             (if v = 64 then []
              else [SendCuia ''ZYNPOT'' [ArgInt (int cc - 85), ArgInt (relative_delta v)]])"
  using assms
  by (simp add: mini_cc_decode mini_cc_event_def mini_knob_event_def mini_zynpot_knob_def
      relative_delta_zero_iff)

lemma mini_mixer_event:
  assumes "3 \<le> length ev" "(ev ! 0 div 16) mod 16 = 11" "ev ! 1 mod 128 = cc"
    and "ev ! 2 mod 128 = v" "knob_bank d = 0" "84 < cc" "cc < 93"
    and "valid_chan h (cc - 85) = Inr (Some c)" "has_zynmixer h"
  shows "mini_midi_event now ev d h
         = (if v = 64 then done_with True d h []
            else done_with True d
                   (h\<lparr>level := (level h)
                      (c := max 0 (min 1 (level h c + real_of_int (relative_delta v) * 0.01)))\<rparr>)
                   [SetLevel c (max 0 (min 1 (level h c + real_of_int (relative_delta v) * 0.01)))])"
proof -
  have pos: "cc - 84 - 1 = cc - 85" by simp
  show ?thesis
    using assms
    by (simp add: mini_cc_decode mini_cc_event_def mini_knob_event_def mini_mixer_knob_def
        relative_delta_zero_iff pos Let_def)
qed

text \<open>
  C1, as the claim states it, fails: the class singles out the raw values 1 and 127 as a
  step of one, so at \<open>v = 1\<close> the decoded delta is \<open>-1\<close>, not \<open>-(64 - 1) = -63\<close>. The ZYNPOT
  knob CC 85 in bank 1 sends \<open>-1\<close> there.
\<close>

theorem relative_decode_counterexample:
  "relative_delta 1 = - 1 \<and> spec_relative_delta 1 = - 63 \<and>
   mini_midi_event 0 [176, 85, 1] mini_init host0
   = done_with True mini_init host0 [SendCuia ''ZYNPOT'' [ArgInt 0, ArgInt (- 1)]] \<and>
   mini_midi_event 0 [176, 85, 1] mini_init host0
   \<noteq> done_with True mini_init host0
       [SendCuia ''ZYNPOT'' [ArgInt 0, ArgInt (spec_relative_delta 1)]]"
  by (simp add: mini_midi_event_def mini_cc_event_def mini_knob_event_def mini_zynpot_knob_def
      relative_delta_def spec_relative_delta_def mini_init_def done_with_def)

text \<open>
  C1, amended: in the transport variant the decoded delta of a raw value \<open>v\<close> is
  \<open>-(64 - v)\<close> for \<open>v\<close> in \<open>[2,63]\<close>, \<open>v - 64\<close> for \<open>v\<close> in \<open>[65,126]\<close>, \<open>-1\<close> at \<open>v = 1\<close>, \<open>+1\<close> at
  \<open>v = 127\<close> and zero at \<open>v = 64\<close> (so it agrees with the spec's formula everywhere on
  \<open>[1,127]\<close> but at 1 and 127). A bank-1 ZYNPOT knob (CC 85..88) sends exactly this delta as
  one ZYNPOT action, and nothing at 64; a bank-0 mixer knob (CC 85..92) on a valid chain
  sets the level to the current level plus 0.01 times this delta, clamped to \<open>[0,1]\<close>, and
  does nothing at 64.
\<close>

theorem relative_decode_amended:
  fixes d :: "'a mini_driver_scheme"
  assumes "3 \<le> length ev" and "(ev ! 0 div 16) mod 16 = 11"
    and "ev ! 1 mod 128 = cc" and "ev ! 2 mod 128 = v"
  shows "(2 \<le> v \<and> v \<le> 63 \<longrightarrow> relative_delta v = - (64 - int v)) \<and>
         (65 \<le> v \<and> v \<le> 126 \<longrightarrow> relative_delta v = int v - 64) \<and>
         relative_delta 1 = - 1 \<and> relative_delta 127 = 1 \<and> relative_delta 64 = 0 \<and>
         (1 < v \<and> v < 127 \<longrightarrow> relative_delta v = spec_relative_delta v) \<and>
         (knob_bank d = 1 \<and> 84 < cc \<and> cc < 89 \<longrightarrow>
            mini_midi_event now ev d h
            = done_with True d h
                (if v = 64 then []
                 else [SendCuia ''ZYNPOT'' [ArgInt (int cc - 85), ArgInt (relative_delta v)]])) \<and>
         (knob_bank d = 0 \<and> 84 < cc \<and> cc < 93 \<and> valid_chan h (cc - 85) = Inr (Some c) \<and>
          has_zynmixer h \<longrightarrow>
            mini_midi_event now ev d h
            = (if v = 64 then done_with True d h []
               else done_with True d
                      (h\<lparr>level := (level h)
                         (c := max 0 (min 1 (level h c + real_of_int (relative_delta v) * 0.01)))\<rparr>)
                      [SetLevel c
                         (max 0 (min 1 (level h c + real_of_int (relative_delta v) * 0.01)))]))"
proof -
  have a: "2 \<le> v \<and> v \<le> 63 \<longrightarrow> relative_delta v = - (64 - int v)"
    by (auto simp: relative_delta_def)
  have b: "65 \<le> v \<and> v \<le> 126 \<longrightarrow> relative_delta v = int v - 64"
    by (auto simp: relative_delta_def)
  have c: "relative_delta 1 = - 1 \<and> relative_delta 127 = 1 \<and> relative_delta 64 = 0"
    by (simp add: relative_delta_def)
  have s: "1 < v \<and> v < 127 \<longrightarrow> relative_delta v = spec_relative_delta v"
    by (auto simp: relative_delta_def spec_relative_delta_def)
  show ?thesis
    using a b c s mini_zynpot_event [OF assms] mini_mixer_event [OF assms] by blast
qed

theorem relative_decode_amended_witness:
  "relative_delta 10 = - 54 \<and> relative_delta 100 = 36 \<and>
   mini_midi_event 0 [176, 86, 10] mini_init host0
   = done_with True mini_init host0 [SendCuia ''ZYNPOT'' [ArgInt 1, ArgInt (- 54)]] \<and>
   mini_midi_event 0 [176, 85, 100] (mini_init\<lparr>knob_bank := 0\<rparr>) host0
   = done_with True (mini_init\<lparr>knob_bank := 0\<rparr>) (host0\<lparr>level := (level host0)(0 := 43 / 50)\<rparr>)
       [SetLevel 0 (43 / 50)]"
proof -
  have d10: "relative_delta 10 = - 54" and d100: "relative_delta 100 = 36"
    using relative_decode_amended [of "[176, 86, 10]" 86 10 mini_init 0 host0 0]
          relative_decode_amended [of "[176, 85, 100]" 85 100 mini_init 0 host0 0]
    by simp_all
  have z: "mini_midi_event 0 [176, 86, 10] mini_init host0
           = done_with True mini_init host0 [SendCuia ''ZYNPOT'' [ArgInt 1, ArgInt (- 54)]]"
    using relative_decode_amended [of "[176, 86, 10]" 86 10 mini_init 0 host0 0] d10
    by (simp add: mini_init_def)
  have v: "valid_chan host0 (85 - 85) = Inr (Some 0)"
    by (simp add: valid_chan_def host0_def)
  have l: "max 0 (min 1 (level host0 0 + real_of_int 36 * 0.01)) = 43 / 50"
    by (simp add: host0_def)
  have m: "mini_midi_event 0 [176, 85, 100] (mini_init\<lparr>knob_bank := 0\<rparr>) host0
           = done_with True (mini_init\<lparr>knob_bank := 0\<rparr>)
               (host0\<lparr>level := (level host0)(0 := 43 / 50)\<rparr>) [SetLevel 0 (43 / 50)]"
    using relative_decode_amended
            [of "[176, 85, 100]" 85 100 "mini_init\<lparr>knob_bank := 0\<rparr>" 0 host0 0] v d100 l
    by (simp add: host0_def)
  show ?thesis using d10 d100 z m by simp
qed

subsection \<open>C2: relative-by-difference decode of the pickup variant\<close>

lemma wrap_delta_spec:
  assumes "a < 128" "b < 128" "int b - int a \<noteq> 64"
  shows "wrap_delta (int b - int a) = spec_wrap_delta a b"
proof -
  define x where "x = int b - int a"
  have r: "- 128 < x" "x < 128" "x \<noteq> 64" using assms by (simp_all add: x_def)
  have "wrap_delta x = (x + 64) mod 128 - 64"
  proof (cases "x > 64")
    case True
    then have "(x + 64) mod 128 = x + 64 - 128"
      using r by (simp add: mod_pos_geq)
    with True show ?thesis by (simp add: wrap_delta_def)
  next
    case False
    show ?thesis
    proof (cases "x < - 64")
      case True
      have "(x + 64 + 128) mod 128 = (x + 64) mod 128" by (rule mod_add_self2)
      moreover have "(x + 64 + 128) mod 128 = x + 64 + 128"
        using True r by (intro mod_pos_pos_trivial) simp_all
      ultimately show ?thesis using True by (simp add: wrap_delta_def)
    next
      case nl: False
      have "(x + 64) mod 128 = x + 64" using False nl r by (intro mod_pos_pos_trivial) simp_all
      then show ?thesis using False nl by (simp add: wrap_delta_def)
    qed
  qed
  then show ?thesis by (simp add: x_def spec_wrap_delta_def)
qed

lemma wrap_delta_zero_iff:
  assumes "a < 128" "b < 128"
  shows "wrap_delta (int b - int a) = 0 \<longleftrightarrow> b = a"
  using assms by (auto simp: wrap_delta_def)

lemma mk4_zynpot_event:
  assumes "3 \<le> length ev" "(ev ! 0 div 16) mod 16 = 11" "ev ! 1 mod 128 = cc"
    and "ev ! 2 mod 128 = b" "knob_bank d = 1" "20 < cc" "cc < 25"
  shows "mk4_midi_event now ev d h = mk4_zynpot_knob cc b d h"
  using assms by (simp add: mk4_cc_decode mk4_cc_event_def mk4_knob_event_def)

text \<open>
  C2, as the claim states it, fails where the raw difference is exactly 64: the class folds
  a difference only when it is above 64 or below -64, so with \<open>a = 0\<close> recorded the value
  \<open>b = 64\<close> sends \<open>+64\<close>, while \<open>((b - a + 64) mod 128) - 64\<close> is \<open>-64\<close>.
\<close>

theorem wraparound_delta_counterexample:
  "wrap_delta (int 64 - int 0) = 64 \<and> spec_wrap_delta 0 64 = - 64 \<and>
   mk4_midi_event 0 [176, 21, 64]
     (mk4_init\<lparr>knob_bank := 1, last_zynpot_values := [21 \<mapsto> 0]\<rparr>) host0
   = done_with True (mk4_init\<lparr>knob_bank := 1, last_zynpot_values := [21 \<mapsto> 64]\<rparr>) host0
       [SendCuia ''ZYNPOT'' [ArgInt 0, ArgInt 64]]"
  by (simp add: mk4_midi_event_def mk4_cc_event_def mk4_knob_event_def mk4_zynpot_knob_def
      wrap_delta_def spec_wrap_delta_def mk4_init_def)

text \<open>
  C2, amended: in the pickup variant, for a bank-1 ZYNPOT knob (CC 21..24) whose last raw
  value \<open>a\<close> is recorded, a new raw value \<open>b \<noteq> a\<close> sends one ZYNPOT action whose delta is
  \<open>b - a\<close>, less 128 when above 64, plus 128 when below -64, and records \<open>b\<close>; this delta
  equals \<open>((b - a + 64) mod 128) - 64\<close> whenever \<open>b - a \<noteq> 64\<close>, and is \<open>+64\<close> when \<open>b - a = 64\<close>.
  In particular \<open>a = 0\<close>, \<open>b = 127\<close> gives \<open>-1\<close> and \<open>a = 127\<close>, \<open>b = 0\<close> gives \<open>+1\<close>. A value equal
  to the recorded one sends nothing. The first value of a knob is only recorded.
\<close>

theorem wraparound_delta_amended:
  fixes d :: "'a mk4_driver_scheme"
  assumes "3 \<le> length ev" and "(ev ! 0 div 16) mod 16 = 11"
    and "ev ! 1 mod 128 = cc" and "ev ! 2 mod 128 = b"
    and "knob_bank d = 1" and "20 < cc" and "cc < 25"
  shows "(last_zynpot_values d cc = None \<longrightarrow>
            mk4_midi_event now ev d h
            = done_with True (d\<lparr>last_zynpot_values := (last_zynpot_values d)(cc \<mapsto> b)\<rparr>) h []) \<and>
         (last_zynpot_values d cc = Some a \<and> a < 128 \<longrightarrow>
            mk4_midi_event now ev d h
            = (if b = a then done_with True d h []
               else done_with True (d\<lparr>last_zynpot_values := (last_zynpot_values d)(cc \<mapsto> b)\<rparr>) h
                      [SendCuia ''ZYNPOT''
                         [ArgInt (int cc - 21), ArgInt (wrap_delta (int b - int a))]])) \<and>
         (a < 128 \<and> int b - int a \<noteq> 64 \<longrightarrow> wrap_delta (int b - int a) = spec_wrap_delta a b) \<and>
         (int b - int a = 64 \<longrightarrow> wrap_delta (int b - int a) = 64) \<and>
         wrap_delta (int 127 - int 0) = - 1 \<and> wrap_delta (int 0 - int 127) = 1"
proof -
  have b: "b < 128" using assms(4) by auto
  have e: "mk4_midi_event now ev d h = mk4_zynpot_knob cc b d h"
    by (rule mk4_zynpot_event [OF assms])
  have first: "last_zynpot_values d cc = None \<longrightarrow>
      mk4_midi_event now ev d h
      = done_with True (d\<lparr>last_zynpot_values := (last_zynpot_values d)(cc \<mapsto> b)\<rparr>) h []"
    by (simp add: e mk4_zynpot_knob_def)
  have later: "last_zynpot_values d cc = Some a \<and> a < 128 \<longrightarrow>
      mk4_midi_event now ev d h
      = (if b = a then done_with True d h []
         else done_with True (d\<lparr>last_zynpot_values := (last_zynpot_values d)(cc \<mapsto> b)\<rparr>) h
                [SendCuia ''ZYNPOT'' [ArgInt (int cc - 21), ArgInt (wrap_delta (int b - int a))]])"
    using b by (simp add: e mk4_zynpot_knob_def wrap_delta_zero_iff Let_def)
  have spec: "a < 128 \<and> int b - int a \<noteq> 64 \<longrightarrow> wrap_delta (int b - int a) = spec_wrap_delta a b"
    using b wrap_delta_spec by blast
  have edge: "int b - int a = 64 \<longrightarrow> wrap_delta (int b - int a) = 64"
    by (simp add: wrap_delta_def)
  have bounds: "wrap_delta (int 127 - int 0) = - 1 \<and> wrap_delta (int 0 - int 127) = 1"
    by (simp add: wrap_delta_def)
  show ?thesis using first later spec edge bounds by blast
qed

theorem wraparound_delta_amended_witness:
  "mk4_midi_event 0 [176, 22, 127] (mk4_init\<lparr>knob_bank := 1\<rparr>) host0
   = done_with True (mk4_init\<lparr>knob_bank := 1, last_zynpot_values := [22 \<mapsto> 127]\<rparr>) host0 [] \<and>
   mk4_midi_event 0 [176, 22, 127]
     (mk4_init\<lparr>knob_bank := 1, last_zynpot_values := [22 \<mapsto> 0]\<rparr>) host0
   = done_with True (mk4_init\<lparr>knob_bank := 1, last_zynpot_values := [22 \<mapsto> 127]\<rparr>) host0
       [SendCuia ''ZYNPOT'' [ArgInt 1, ArgInt (- 1)]] \<and>
   wrap_delta (int 127 - int 0) = spec_wrap_delta 0 127"
proof -
  have first: "mk4_midi_event 0 [176, 22, 127] (mk4_init\<lparr>knob_bank := 1\<rparr>) host0
      = done_with True (mk4_init\<lparr>knob_bank := 1, last_zynpot_values := [22 \<mapsto> 127]\<rparr>) host0 []"
    using wraparound_delta_amended
            [where ev = "[176, 22, 127]" and cc = 22 and b = 127 and a = 0 and now = 0
               and d = "mk4_init\<lparr>knob_bank := 1\<rparr>" and h = host0]
    by (simp add: mk4_init_def)
  have later: "mk4_midi_event 0 [176, 22, 127]
        (mk4_init\<lparr>knob_bank := 1, last_zynpot_values := [22 \<mapsto> 0]\<rparr>) host0
      = done_with True (mk4_init\<lparr>knob_bank := 1, last_zynpot_values := [22 \<mapsto> 127]\<rparr>) host0
          [SendCuia ''ZYNPOT'' [ArgInt 1, ArgInt (- 1)]]"
    using wraparound_delta_amended
            [where ev = "[176, 22, 127]" and cc = 22 and b = 127 and a = 0 and now = 0
               and d = "mk4_init\<lparr>knob_bank := 1, last_zynpot_values := [22 \<mapsto> 0]\<rparr>"
               and h = host0]
    by (simp add: mk4_init_def wrap_delta_def spec_wrap_delta_def)
  have s: "wrap_delta (int 127 - int 0) = spec_wrap_delta 0 127"
    using wraparound_delta_amended
            [where ev = "[176, 22, 127]" and cc = 22 and b = 127 and a = 0 and now = 0
               and d = "mk4_init\<lparr>knob_bank := 1\<rparr>" and h = host0]
    by (simp add: mk4_init_def)
  show ?thesis using first later s by simp
qed


subsection \<open>C3: soft takeover of the pickup variant\<close>

lemma mk4_mixer_event:
  assumes "3 \<le> length ev" "(ev ! 0 div 16) mod 16 = 11" "ev ! 1 mod 128 = cc"
    and "ev ! 2 mod 128 = v" "knob_bank d = 0" "20 < cc" "cc < 27"
  shows "mk4_midi_event now ev d h = mk4_mixer_knob cc v d h"
  using assms by (simp add: mk4_cc_decode mk4_cc_event_def mk4_knob_event_def)

lemma mk4_mixer_knob_cases:
  assumes "20 < cc" and "cc < 27" and "valid_chan h (cc - 21) = Inr (Some c)"
    and "has_zynmixer h"
  shows "(mixer_synced d cc = None \<and>
          \<not> \<bar>double_round (double_round (real v / 127) - level h c)\<bar> < double_round 0.02 \<longrightarrow>
            mk4_mixer_knob cc v d h = done_with True d h []) \<and>
         (mixer_synced d cc = None \<and>
          \<bar>double_round (double_round (real v / 127) - level h c)\<bar> < double_round 0.02 \<longrightarrow>
            mk4_mixer_knob cc v d h
            = done_with True (d\<lparr>mixer_synced := (mixer_synced d)(cc \<mapsto> True)\<rparr>)
                (h\<lparr>level := (level h)(c := double_round (real v / 127))\<rparr>)
                [SetLevel c (double_round (real v / 127))]) \<and>
         (mixer_synced d cc \<noteq> None \<longrightarrow>
            mk4_mixer_knob cc v d h
            = done_with True d (h\<lparr>level := (level h)(c := double_round (real v / 127))\<rparr>)
                [SetLevel c (double_round (real v / 127))])"
proof -
  have pos: "cc - 20 - 1 = cc - 21" by simp
  show ?thesis using assms by (auto simp: mk4_mixer_knob_def pos Let_def)
qed


text \<open>
  C3, as the claim states it, fails at the edge of the band: the class computes the test
  \<open>abs(new_level - current_level) < 0.02\<close> in double precision. With the level at the
  double \<open>0.15385826771653544\<close> and the knob unsynced, the value 17 is at least 0.02 away
  from the level (\<open>|17/127 - level| \<ge> 0.02\<close>), yet the division \<open>17/127.0\<close> rounds towards
  the level and the test passes: the knob syncs and the level is set. With the level at
  the double \<open>0.7837795275590551\<close> the value 97 is less than 0.02 away from it
  (\<open>|97/127 - level| < 0.02\<close>), yet the test fails and nothing happens.
\<close>

theorem soft_takeover_counterexample:
  "\<bar>real 17 / 127 - level host2 0\<bar> \<ge> 0.02 \<and>
   mk4_midi_event 0 [176, 21, 17] mk4_init host2
   = done_with True (mk4_init\<lparr>mixer_synced := [21 \<mapsto> True]\<rparr>)
       (host2\<lparr>level := (level host2)(0 := 4822752356869193 / 36028797018963968)\<rparr>)
       [SetLevel 0 (4822752356869193 / 36028797018963968)] \<and>
   \<bar>real 97 / 127 - level host2 1\<bar> < 0.02 \<and>
   mk4_midi_event 0 [176, 22, 97] mk4_init host2 = done_with True mk4_init host2 []"
proof -
  have l: "level host2 0 = 692916037156059 / 4503599627370496"
    "level host2 1 = 110307162132987 / 140737488355328"
    by (simp_all add: host2_def)
  have a: "\<bar>real 17 / 127 - level host2 0\<bar> \<ge> 0.02"
    "\<bar>real 97 / 127 - level host2 1\<bar> < 0.02"
    by (simp_all add: l)
  have p: "3 \<le> length [176, 21, 17::nat]" "([176, 21, 17::nat] ! 0 div 16) mod 16 = 11"
    "[176, 21, 17::nat] ! 1 mod 128 = 21" "[176, 21, 17::nat] ! 2 mod 128 = 17"
    by simp_all
  have q: "3 \<le> length [176, 22, 97::nat]" "([176, 22, 97::nat] ! 0 div 16) mod 16 = 11"
    "[176, 22, 97::nat] ! 1 mod 128 = 22" "[176, 22, 97::nat] ! 2 mod 128 = 97"
    by simp_all
  have kb: "knob_bank mk4_init = 0" and u: "mixer_synced mk4_init 21 = None"
    "mixer_synced mk4_init 22 = None"
    by (simp_all add: mk4_init_def)
  have cc: "(20::nat) < 21" "(21::nat) < 27" "(20::nat) < 22" "(22::nat) < 27" by simp_all
  have vc: "valid_chan host2 (21 - 21) = Inr (Some 0)" "valid_chan host2 (22 - 21) = Inr (Some 1)"
    and z: "has_zynmixer host2"
    by (simp_all add: valid_chan_def host2_def)
  have pass: "\<bar>double_round (double_round (real 17 / 127) - level host2 0)\<bar> < double_round 0.02"
    and fail: "\<not> \<bar>double_round (double_round (real 97 / 127) - level host2 1)\<bar> < double_round 0.02"
    by (simp_all add: l double_round_def scale_up.simps round_half_even_def)
  have n: "double_round (real 17 / 127) = 4822752356869193 / 36028797018963968"
    by (simp add: double_round_def scale_up.simps round_half_even_def)
  have "mk4_midi_event 0 [176, 21, 17] mk4_init host2
      = done_with True (mk4_init\<lparr>mixer_synced := (mixer_synced mk4_init)(21 \<mapsto> True)\<rparr>)
          (host2\<lparr>level := (level host2)(0 := double_round (real 17 / 127))\<rparr>)
          [SetLevel 0 (double_round (real 17 / 127))]"
    using mk4_mixer_knob_cases [OF cc(1,2) vc(1) z, of mk4_init 17] u(1) pass
    unfolding mk4_mixer_event [OF p kb cc(1,2)] by blast
  then have e17: "mk4_midi_event 0 [176, 21, 17] mk4_init host2
      = done_with True (mk4_init\<lparr>mixer_synced := [21 \<mapsto> True]\<rparr>)
          (host2\<lparr>level := (level host2)(0 := 4822752356869193 / 36028797018963968)\<rparr>)
          [SetLevel 0 (4822752356869193 / 36028797018963968)]"
    unfolding n by (simp add: mk4_init_def)
  have e97: "mk4_midi_event 0 [176, 22, 97] mk4_init host2 = done_with True mk4_init host2 []"
    using mk4_mixer_knob_cases [OF cc(3,4) vc(2) z, of mk4_init 97] u(2) fail
    unfolding mk4_mixer_event [OF q kb cc(3,4)] by blast
  show ?thesis using a e17 e97 by blast
qed


text \<open>
  C3, amended: in the pickup variant, for a bank-0 mixer knob (CC 21..26) on a valid chain
  with mixer channel \<open>c\<close>, the tolerance test is the one the class computes in double
  precision, \<open>abs(v/127.0 - level) < 0.02\<close> with the division, the subtraction and the
  literal each rounded to the nearest double (so it can differ from the exact comparison
  at the edge of the band). While the knob is unsynced, a value \<open>v\<close> that fails the test
  changes nothing (no mixer call, the level and the sync set as before); a value that
  passes it marks the knob synced and sets the level to the double \<open>v/127.0\<close>; once the
  knob is synced, every value sets the level to the double \<open>v/127.0\<close>.
\<close>

theorem soft_takeover_amended:
  fixes d :: "'a mk4_driver_scheme"
  assumes "3 \<le> length ev" and "(ev ! 0 div 16) mod 16 = 11"
    and "ev ! 1 mod 128 = cc" and "ev ! 2 mod 128 = v"
    and "knob_bank d = 0" and "20 < cc" and "cc < 27"
    and "valid_chan h (cc - 21) = Inr (Some c)" and "has_zynmixer h"
  shows "(mixer_synced d cc = None \<and>
          \<not> \<bar>double_round (double_round (real v / 127) - level h c)\<bar> < double_round 0.02 \<longrightarrow>
            mk4_midi_event now ev d h = done_with True d h []) \<and>
         (mixer_synced d cc = None \<and>
          \<bar>double_round (double_round (real v / 127) - level h c)\<bar> < double_round 0.02 \<longrightarrow>
            mk4_midi_event now ev d h
            = done_with True (d\<lparr>mixer_synced := (mixer_synced d)(cc \<mapsto> True)\<rparr>)
                (h\<lparr>level := (level h)(c := double_round (real v / 127))\<rparr>)
                [SetLevel c (double_round (real v / 127))]) \<and>
         (mixer_synced d cc \<noteq> None \<longrightarrow>
            mk4_midi_event now ev d h
            = done_with True d (h\<lparr>level := (level h)(c := double_round (real v / 127))\<rparr>)
                [SetLevel c (double_round (real v / 127))]) \<and>
         double_round 0.02 = 5764607523034235 / 288230376151711744"
proof -
  have e: "mk4_midi_event now ev d h = mk4_mixer_knob cc v d h"
    by (rule mk4_mixer_event [OF assms(1-7)])
  have k: "double_round 0.02 = 5764607523034235 / 288230376151711744"
    by (simp add: double_round_def scale_up.simps round_half_even_def)
  show ?thesis
    using mk4_mixer_knob_cases [OF assms(6-9), of d v] k unfolding e by blast
qed


theorem soft_takeover_amended_witness:
  "mk4_midi_event 0 [176, 21, 100] mk4_init host0 = done_with True mk4_init host0 [] \<and>
   mk4_midi_event 0 [176, 21, 64] mk4_init host0
   = done_with True (mk4_init\<lparr>mixer_synced := [21 \<mapsto> True]\<rparr>)
       (host0\<lparr>level := (level host0)(0 := 567382630219905 / 1125899906842624)\<rparr>)
       [SetLevel 0 (567382630219905 / 1125899906842624)] \<and>
   mk4_midi_event 0 [176, 21, 100] (mk4_init\<lparr>mixer_synced := [21 \<mapsto> True]\<rparr>) host0
   = done_with True (mk4_init\<lparr>mixer_synced := [21 \<mapsto> True]\<rparr>)
       (host0\<lparr>level := (level host0)(0 := 7092282877748813 / 9007199254740992)\<rparr>)
       [SetLevel 0 (7092282877748813 / 9007199254740992)]"
proof -
  have p: "3 \<le> length [176, 21, 100::nat]" "([176, 21, 100::nat] ! 0 div 16) mod 16 = 11"
    "[176, 21, 100::nat] ! 1 mod 128 = 21" "[176, 21, 100::nat] ! 2 mod 128 = 100"
    by simp_all
  have q: "3 \<le> length [176, 21, 64::nat]" "([176, 21, 64::nat] ! 0 div 16) mod 16 = 11"
    "[176, 21, 64::nat] ! 1 mod 128 = 21" "[176, 21, 64::nat] ! 2 mod 128 = 64"
    by simp_all
  have kb: "knob_bank mk4_init = 0" "knob_bank (mk4_init\<lparr>mixer_synced := [21 \<mapsto> True]\<rparr>) = 0"
    and cc: "(20::nat) < 21" "(21::nat) < 27"
    and vc: "valid_chan host0 (21 - 21) = Inr (Some 0)" and z: "has_zynmixer host0"
    by (simp_all add: mk4_init_def valid_chan_def host0_def)
  have l: "level host0 0 = 1 / 2" by (simp add: host0_def)
  have u: "mixer_synced mk4_init 21 = None"
    "mixer_synced (mk4_init\<lparr>mixer_synced := [21 \<mapsto> True]\<rparr>) 21 \<noteq> None"
    by (simp_all add: mk4_init_def)
  have far: "\<not> \<bar>double_round (double_round (real 100 / 127) - level host0 0)\<bar> < double_round 0.02"
    and near: "\<bar>double_round (double_round (real 64 / 127) - level host0 0)\<bar> < double_round 0.02"
    by (simp_all add: l double_round_def scale_up.simps round_half_even_def)
  have n: "double_round (real 64 / 127) = 567382630219905 / 1125899906842624"
    "double_round (real 100 / 127) = 7092282877748813 / 9007199254740992"
    by (simp_all add: double_round_def scale_up.simps round_half_even_def)
  note t100 = soft_takeover_amended [OF p kb(1) cc vc z, where now = 0]
  note t64 = soft_takeover_amended [OF q kb(1) cc vc z, where now = 0]
  note s100 = soft_takeover_amended [OF p kb(2) cc vc z, where now = 0]
  have a: "mk4_midi_event 0 [176, 21, 100] mk4_init host0 = done_with True mk4_init host0 []"
    using t100 u(1) far by blast
  have b: "mk4_midi_event 0 [176, 21, 64] mk4_init host0
      = done_with True (mk4_init\<lparr>mixer_synced := [21 \<mapsto> True]\<rparr>)
          (host0\<lparr>level := (level host0)(0 := 567382630219905 / 1125899906842624)\<rparr>)
          [SetLevel 0 (567382630219905 / 1125899906842624)]"
  proof -
    have "mk4_midi_event 0 [176, 21, 64] mk4_init host0
        = done_with True (mk4_init\<lparr>mixer_synced := (mixer_synced mk4_init)(21 \<mapsto> True)\<rparr>)
            (host0\<lparr>level := (level host0)(0 := 567382630219905 / 1125899906842624)\<rparr>)
            [SetLevel 0 (567382630219905 / 1125899906842624)]"
      using t64 u(1) near unfolding n by blast
    then show ?thesis by (simp add: mk4_init_def)
  qed
  have c: "mk4_midi_event 0 [176, 21, 100] (mk4_init\<lparr>mixer_synced := [21 \<mapsto> True]\<rparr>) host0
      = done_with True (mk4_init\<lparr>mixer_synced := [21 \<mapsto> True]\<rparr>)
          (host0\<lparr>level := (level host0)(0 := 7092282877748813 / 9007199254740992)\<rparr>)
          [SetLevel 0 (7092282877748813 / 9007199254740992)]"
    using s100 u(2) unfolding n by blast
  show ?thesis using a b c by blast
qed

subsection \<open>C4: hold classification\<close>

lemma mini_zynswitch_cc:
  assumes "3 \<le> length ev" "(ev ! 0 div 16) mod 16 = 11" "ev ! 1 mod 128 = cc"
    and "ev ! 2 mod 128 = v" "cc \<in> {74, 75, 76, 77}"
  shows "mini_midi_event now ev d h = zynswitch_event now cc v d h"
  using assms by (auto simp: mini_cc_decode mini_cc_event_def)

lemma mk4_zynswitch_cc:
  assumes "3 \<le> length ev" "(ev ! 0 div 16) mod 16 = 11" "ev ! 1 mod 128 = cc"
    and "ev ! 2 mod 128 = v" "cc \<in> {74, 75, 76, 77}"
  shows "mk4_midi_event now ev d h = zynswitch_event now cc v d h"
  using assms by (auto simp: mk4_cc_decode mk4_cc_event_def)

lemma mini_hold_104:
  assumes "3 \<le> length ev" "(ev ! 0 div 16) mod 16 = 11" "ev ! 1 mod 128 = 104"
    and "ev ! 2 mod 128 = v"
  shows "mini_midi_event now ev d h = press_release 3 True now 104 v d h"
  using assms by (simp add: mini_cc_decode mini_cc_event_def)

lemma mk4_hold_105:
  assumes "3 \<le> length ev" "(ev ! 0 div 16) mod 16 = 11" "ev ! 1 mod 128 = 105"
    and "ev ! 2 mod 128 = v"
  shows "mk4_midi_event now ev d h = press_release 3 True now 105 v d h"
  using assms by (simp add: mk4_cc_decode mk4_cc_event_def)

lemma hold_kind_points:
  "hold_kind 0.49 = ''S'' \<and> hold_kind 0.5 = ''B'' \<and> hold_kind 1.49 = ''B'' \<and>
   hold_kind 1.5 = ''L''"
  by (simp add: hold_kind_def)

text \<open>
  C4, as the claim states it, fails for CC 76 while shift is held: the class then treats
  the button as the metronome button, so a press sends TEMPO and records no time, and a
  release with a press recorded earlier sends nothing and keeps the entry.
\<close>

theorem hold_classification_counterexample:
  "mini_midi_event 5 [176, 76, 127] (mini_init\<lparr>shift := True\<rparr>) host0
   = done_with True (mini_init\<lparr>shift := True\<rparr>) host0 [SendCuia ''TEMPO'' []] \<and>
   press_times (mini_init\<lparr>shift := True\<rparr>) 76 = None \<and>
   mini_midi_event 5 [176, 76, 0] (mini_init\<lparr>shift := True, press_times := [76 \<mapsto> 4]\<rparr>) host0
   = done_with True (mini_init\<lparr>shift := True, press_times := [76 \<mapsto> 4]\<rparr>) host0 []"
  by (simp add: mini_midi_event_def mini_cc_event_def zynswitch_event_def mini_init_def)

text \<open>
  C4, amended: for the hold-classified buttons CC 74, 75 and 77, CC 76 while shift is not
  held, and CC 104 in the transport variant, CC 105 in the pickup variant: a press
  (value above 0) records the current time and sends no host action; a release (value 0)
  with a recorded press sends exactly one ZYNSWITCH action, short if the duration is
  below 0.5 s, bold if it is at least 0.5 s and below 1.5 s, long if it is at least 1.5 s
  (0.49 s short, 0.50 s bold, 1.49 s bold, 1.50 s long), and removes the entry; a release
  with no recorded press sends nothing. CC 76 while shift is held is the metronome
  button: a press sends TEMPO, and neither a press nor a release touches the registry.
\<close>

theorem hold_classification_amended:
  fixes dm :: "'a mini_driver_scheme" and dk :: "'b mk4_driver_scheme"
  assumes "3 \<le> length ev" and "(ev ! 0 div 16) mod 16 = 11"
    and "ev ! 1 mod 128 = cc" and "ev ! 2 mod 128 = v"
  shows "(cc \<in> {74, 75, 77} \<or> cc = 76 \<and> \<not> shift dm \<or> cc = 104 \<longrightarrow>
            (0 < v \<longrightarrow>
               mini_midi_event now ev dm h
               = done_with True (dm\<lparr>press_times := (press_times dm)(cc \<mapsto> now)\<rparr>) h
                   (if cc = 104 then [DevSendCC (idev_out dm) 0 cc 127] else [])) \<and>
            (v = 0 \<and> press_times dm cc = None \<longrightarrow>
               mini_midi_event now ev dm h = done_with True dm h []) \<and>
            (v = 0 \<and> press_times dm cc = Some start \<longrightarrow>
               mini_midi_event now ev dm h
               = done_with True (dm\<lparr>press_times := (press_times dm)(cc := None)\<rparr>) h
                   [SendCuia ''ZYNSWITCH''
                      [ArgInt (if cc = 104 then 3 else zynswitch_index cc),
                       ArgStr (hold_kind (now - start))]])) \<and>
         (cc \<in> {74, 75, 77} \<or> cc = 76 \<and> \<not> shift dk \<or> cc = 105 \<longrightarrow>
            (0 < v \<longrightarrow>
               mk4_midi_event now ev dk h
               = done_with True (dk\<lparr>press_times := (press_times dk)(cc \<mapsto> now)\<rparr>) h
                   (if cc = 105 then [DevSendCC (idev_out dk) 0 cc 127] else [])) \<and>
            (v = 0 \<and> press_times dk cc = None \<longrightarrow>
               mk4_midi_event now ev dk h = done_with True dk h []) \<and>
            (v = 0 \<and> press_times dk cc = Some start \<longrightarrow>
               mk4_midi_event now ev dk h
               = done_with True (dk\<lparr>press_times := (press_times dk)(cc := None)\<rparr>) h
                   [SendCuia ''ZYNSWITCH''
                      [ArgInt (if cc = 105 then 3 else zynswitch_index cc),
                       ArgStr (hold_kind (now - start))]])) \<and>
         (cc = 76 \<and> shift dm \<longrightarrow>
            mini_midi_event now ev dm h
            = done_with True dm h (if 0 < v then [SendCuia ''TEMPO'' []] else [])) \<and>
         (cc = 76 \<and> shift dk \<longrightarrow>
            mk4_midi_event now ev dk h
            = done_with True dk h (if 0 < v then [SendCuia ''TEMPO'' []] else [])) \<and>
         hold_kind t = (if t < 0.5 then ''S'' else if t < 1.5 then ''B'' else ''L'') \<and>
         hold_kind 0.49 = ''S'' \<and> hold_kind 0.5 = ''B'' \<and> hold_kind 1.49 = ''B'' \<and>
         hold_kind 1.5 = ''L''"
proof -
  have mini: "cc \<in> {74, 75, 77} \<or> cc = 76 \<and> \<not> shift dm \<or> cc = 104 \<longrightarrow>
      mini_midi_event now ev dm h
      = press_release (if cc = 104 then 3 else zynswitch_index cc) (cc = 104) now cc v dm h"
    using mini_zynswitch_cc [OF assms, of now dm h] mini_hold_104 [of ev v now dm h] assms
    by (auto simp: zynswitch_event_def)
  have mk4: "cc \<in> {74, 75, 77} \<or> cc = 76 \<and> \<not> shift dk \<or> cc = 105 \<longrightarrow>
      mk4_midi_event now ev dk h
      = press_release (if cc = 105 then 3 else zynswitch_index cc) (cc = 105) now cc v dk h"
    using mk4_zynswitch_cc [OF assms, of now dk h] mk4_hold_105 [of ev v now dk h] assms
    by (auto simp: zynswitch_event_def)
  have tm: "cc = 76 \<and> shift dm \<longrightarrow>
      mini_midi_event now ev dm h
      = done_with True dm h (if 0 < v then [SendCuia ''TEMPO'' []] else [])"
    using mini_zynswitch_cc [OF assms, of now dm h] by (simp add: zynswitch_event_def)
  have tk: "cc = 76 \<and> shift dk \<longrightarrow>
      mk4_midi_event now ev dk h
      = done_with True dk h (if 0 < v then [SendCuia ''TEMPO'' []] else [])"
    using mk4_zynswitch_cc [OF assms, of now dk h] by (simp add: zynswitch_event_def)
  have hk: "hold_kind t = (if t < 0.5 then ''S'' else if t < 1.5 then ''B'' else ''L'')"
    by (simp add: hold_kind_def)
  have m: "cc \<in> {74, 75, 77} \<or> cc = 76 \<and> \<not> shift dm \<or> cc = 104 \<longrightarrow>
            (0 < v \<longrightarrow>
               mini_midi_event now ev dm h
               = done_with True (dm\<lparr>press_times := (press_times dm)(cc \<mapsto> now)\<rparr>) h
                   (if cc = 104 then [DevSendCC (idev_out dm) 0 cc 127] else [])) \<and>
            (v = 0 \<and> press_times dm cc = None \<longrightarrow>
               mini_midi_event now ev dm h = done_with True dm h []) \<and>
            (v = 0 \<and> press_times dm cc = Some start \<longrightarrow>
               mini_midi_event now ev dm h
               = done_with True (dm\<lparr>press_times := (press_times dm)(cc := None)\<rparr>) h
                   [SendCuia ''ZYNSWITCH''
                      [ArgInt (if cc = 104 then 3 else zynswitch_index cc),
                       ArgStr (hold_kind (now - start))]])"
  proof (intro impI)
    assume "cc \<in> {74, 75, 77} \<or> cc = 76 \<and> \<not> shift dm \<or> cc = 104"
    then have e: "mini_midi_event now ev dm h
        = press_release (if cc = 104 then 3 else zynswitch_index cc) (cc = 104) now cc v dm h"
      using mini by blast
    show "(0 < v \<longrightarrow>
               mini_midi_event now ev dm h
               = done_with True (dm\<lparr>press_times := (press_times dm)(cc \<mapsto> now)\<rparr>) h
                   (if cc = 104 then [DevSendCC (idev_out dm) 0 cc 127] else [])) \<and>
            (v = 0 \<and> press_times dm cc = None \<longrightarrow>
               mini_midi_event now ev dm h = done_with True dm h []) \<and>
            (v = 0 \<and> press_times dm cc = Some start \<longrightarrow>
               mini_midi_event now ev dm h
               = done_with True (dm\<lparr>press_times := (press_times dm)(cc := None)\<rparr>) h
                   [SendCuia ''ZYNSWITCH''
                      [ArgInt (if cc = 104 then 3 else zynswitch_index cc),
                       ArgStr (hold_kind (now - start))]])"
      unfolding e by (simp add: press_release_def)
  qed
  have k: "cc \<in> {74, 75, 77} \<or> cc = 76 \<and> \<not> shift dk \<or> cc = 105 \<longrightarrow>
            (0 < v \<longrightarrow>
               mk4_midi_event now ev dk h
               = done_with True (dk\<lparr>press_times := (press_times dk)(cc \<mapsto> now)\<rparr>) h
                   (if cc = 105 then [DevSendCC (idev_out dk) 0 cc 127] else [])) \<and>
            (v = 0 \<and> press_times dk cc = None \<longrightarrow>
               mk4_midi_event now ev dk h = done_with True dk h []) \<and>
            (v = 0 \<and> press_times dk cc = Some start \<longrightarrow>
               mk4_midi_event now ev dk h
               = done_with True (dk\<lparr>press_times := (press_times dk)(cc := None)\<rparr>) h
                   [SendCuia ''ZYNSWITCH''
                      [ArgInt (if cc = 105 then 3 else zynswitch_index cc),
                       ArgStr (hold_kind (now - start))]])"
  proof (intro impI)
    assume "cc \<in> {74, 75, 77} \<or> cc = 76 \<and> \<not> shift dk \<or> cc = 105"
    then have e: "mk4_midi_event now ev dk h
        = press_release (if cc = 105 then 3 else zynswitch_index cc) (cc = 105) now cc v dk h"
      using mk4 by blast
    show "(0 < v \<longrightarrow>
               mk4_midi_event now ev dk h
               = done_with True (dk\<lparr>press_times := (press_times dk)(cc \<mapsto> now)\<rparr>) h
                   (if cc = 105 then [DevSendCC (idev_out dk) 0 cc 127] else [])) \<and>
            (v = 0 \<and> press_times dk cc = None \<longrightarrow>
               mk4_midi_event now ev dk h = done_with True dk h []) \<and>
            (v = 0 \<and> press_times dk cc = Some start \<longrightarrow>
               mk4_midi_event now ev dk h
               = done_with True (dk\<lparr>press_times := (press_times dk)(cc := None)\<rparr>) h
                   [SendCuia ''ZYNSWITCH''
                      [ArgInt (if cc = 105 then 3 else zynswitch_index cc),
                       ArgStr (hold_kind (now - start))]])"
      unfolding e by (simp add: press_release_def)
  qed
  from m k tm tk hk hold_kind_points show ?thesis
    by (intro conjI) (rule m, rule k, rule tm, rule tk, rule hk, simp_all)
qed

theorem hold_classification_amended_witness:
  "mini_midi_event 10 [176, 74, 127] mini_init host0
   = done_with True (mini_init\<lparr>press_times := [74 \<mapsto> 10]\<rparr>) host0 [] \<and>
   mini_midi_event (21 / 2) [176, 104, 0] (mini_init\<lparr>press_times := [104 \<mapsto> 10]\<rparr>) host0
   = done_with True (mini_init\<lparr>press_times := [104 \<mapsto> 10](104 := None)\<rparr>) host0
       [SendCuia ''ZYNSWITCH'' [ArgInt 3, ArgStr ''B'']] \<and>
   mk4_midi_event 10 [176, 105, 0] mk4_init host0 = done_with True mk4_init host0 [] \<and>
   mk4_midi_event (23 / 2) [176, 77, 0] (mk4_init\<lparr>press_times := [77 \<mapsto> 10]\<rparr>) host0
   = done_with True (mk4_init\<lparr>press_times := [77 \<mapsto> 10](77 := None)\<rparr>) host0
       [SendCuia ''ZYNSWITCH'' [ArgInt 2, ArgStr ''L'']] \<and>
   mk4_midi_event 10 [176, 76, 127] (mk4_init\<lparr>shift := True\<rparr>) host0
   = done_with True (mk4_init\<lparr>shift := True\<rparr>) host0 [SendCuia ''TEMPO'' []]"
proof -
  have press: "mini_midi_event 10 [176, 74, 127] mini_init host0
      = done_with True (mini_init\<lparr>press_times := [74 \<mapsto> 10]\<rparr>) host0 []"
    using hold_classification_amended
            [where ev = "[176, 74, 127]" and cc = 74 and v = 127 and now = 10 and h = host0
               and dm = mini_init and dk = mk4_init and start = 0 and t = 0]
    by (simp add: mini_init_def)
  have bold: "mini_midi_event (21 / 2) [176, 104, 0]
        (mini_init\<lparr>press_times := [104 \<mapsto> 10]\<rparr>) host0
      = done_with True (mini_init\<lparr>press_times := [104 \<mapsto> 10](104 := None)\<rparr>) host0
          [SendCuia ''ZYNSWITCH'' [ArgInt 3, ArgStr ''B'']]"
    using hold_classification_amended
            [where ev = "[176, 104, 0]" and cc = 104 and v = 0 and now = "21 / 2" and h = host0
               and dm = "mini_init\<lparr>press_times := [104 \<mapsto> 10]\<rparr>" and dk = mk4_init
               and start = 10 and t = 0]
    by (simp add: mini_init_def hold_kind_def)
  have spurious: "mk4_midi_event 10 [176, 105, 0] mk4_init host0
      = done_with True mk4_init host0 []"
    using hold_classification_amended
            [where ev = "[176, 105, 0]" and cc = 105 and v = 0 and now = 10 and h = host0
               and dm = mini_init and dk = mk4_init and start = 0 and t = 0]
    by (simp add: mk4_init_def)
  have long: "mk4_midi_event (23 / 2) [176, 77, 0] (mk4_init\<lparr>press_times := [77 \<mapsto> 10]\<rparr>) host0
      = done_with True (mk4_init\<lparr>press_times := [77 \<mapsto> 10](77 := None)\<rparr>) host0
          [SendCuia ''ZYNSWITCH'' [ArgInt 2, ArgStr ''L'']]"
    using hold_classification_amended
            [where ev = "[176, 77, 0]" and cc = 77 and v = 0 and now = "23 / 2" and h = host0
               and dm = mini_init and dk = "mk4_init\<lparr>press_times := [77 \<mapsto> 10]\<rparr>"
               and start = 10 and t = 0]
    by (simp add: mk4_init_def hold_kind_def zynswitch_index_def)
  have tempo: "mk4_midi_event 10 [176, 76, 127] (mk4_init\<lparr>shift := True\<rparr>) host0
      = done_with True (mk4_init\<lparr>shift := True\<rparr>) host0 [SendCuia ''TEMPO'' []]"
    using hold_classification_amended
            [where ev = "[176, 76, 127]" and cc = 76 and v = 127 and now = 10 and h = host0
               and dm = mini_init and dk = "mk4_init\<lparr>shift := True\<rparr>" and start = 0 and t = 0]
    by (simp add: mk4_init_def)
  show ?thesis using press bold spurious long tempo by simp
qed

subsection \<open>C5: bank switching\<close>

lemma mini_bank_cc:
  assumes "3 \<le> length ev" "(ev ! 0 div 16) mod 16 = 11" "ev ! 1 mod 128 = cc"
    and "ev ! 2 mod 128 = v" "0 < v"
  shows "cc = 51 \<longrightarrow> mini_midi_event now ev d h = bank_button ''ARROW_UP'' (- 1) (\<lambda>x. x) d h"
    and "cc = 52 \<longrightarrow> mini_midi_event now ev d h = bank_button ''ARROW_DOWN'' 1 (\<lambda>x. x) d h"
  using assms by (simp_all add: mini_cc_decode mini_cc_event_def)

lemma mk4_bank_cc:
  assumes "3 \<le> length ev" "(ev ! 0 div 16) mod 16 = 11" "ev ! 1 mod 128 = cc"
    and "ev ! 2 mod 128 = v" "0 < v"
  shows "cc = 51 \<longrightarrow> mk4_midi_event now ev d h = bank_button ''ARROW_UP'' (- 1) mk4_bank_reset d h"
    and "cc = 52 \<longrightarrow> mk4_midi_event now ev d h = bank_button ''ARROW_DOWN'' 1 mk4_bank_reset d h"
  using assms by (simp_all add: mk4_cc_decode mk4_cc_event_def)

text \<open>
  C5, as the claim states it, fails on the relative-encoder memory: a bank change of the
  pickup variant clears \<open>mixer_synced\<close> only, and \<open>last_zynpot_values\<close> keeps its entries
  (no line of the class clears it). Here the value 5 recorded for CC 21 survives the change
  from bank 1 to bank 2.
\<close>

theorem bank_switching_counterexample:
  "(case mk4_midi_event 0 [176, 52, 127]
           (mk4_init\<lparr>knob_bank := 1, last_zynpot_values := [21 \<mapsto> 5]\<rparr>) host0 of
      Inl e \<Rightarrow> False
    | Inr out \<Rightarrow> knob_bank (drv out) = 2 \<and> last_zynpot_values (drv out) 21 = Some 5 \<and>
                 last_zynpot_values (drv out) \<noteq> Map.empty)"
  by (simp add: mk4_midi_event_def mk4_cc_event_def bank_button_def mk4_bank_reset_def
      mk4_init_def done_with_def Let_def)

text \<open>
  C5, amended: on a bank-down activation (CC 51, value above 0) without shift the bank
  index becomes \<open>(current - 1) mod 3\<close> (bank 0 to bank 2), on a bank-up activation (CC 52,
  value above 0) without shift it becomes \<open>(current + 1) mod 3\<close> (bank 2 to bank 0), and the
  bank indicators are refreshed; in the pickup variant every such transition clears the
  takeover sync set and leaves the relative-encoder memory as it was (the transport
  variant has neither); with shift held the same controls send ARROW_UP and ARROW_DOWN
  and leave the whole driver state unchanged.
\<close>

theorem bank_switching_amended:
  fixes dm :: "'a mini_driver_scheme" and dk :: "'b mk4_driver_scheme"
  assumes "3 \<le> length ev" and "(ev ! 0 div 16) mod 16 = 11"
    and "ev ! 1 mod 128 = cc" and "ev ! 2 mod 128 = v" and "0 < v"
  shows "(cc = 51 \<and> \<not> shift dm \<longrightarrow>
            mini_midi_event now ev dm h
            = done_with True (dm\<lparr>knob_bank := (knob_bank dm - 1) mod 3\<rparr>) h
                (update_button_leds (dm\<lparr>knob_bank := (knob_bank dm - 1) mod 3\<rparr>))) \<and>
         (cc = 52 \<and> \<not> shift dm \<longrightarrow>
            mini_midi_event now ev dm h
            = done_with True (dm\<lparr>knob_bank := (knob_bank dm + 1) mod 3\<rparr>) h
                (update_button_leds (dm\<lparr>knob_bank := (knob_bank dm + 1) mod 3\<rparr>))) \<and>
         (cc = 51 \<and> shift dm \<longrightarrow>
            mini_midi_event now ev dm h = done_with True dm h [SendCuia ''ARROW_UP'' []]) \<and>
         (cc = 52 \<and> shift dm \<longrightarrow>
            mini_midi_event now ev dm h = done_with True dm h [SendCuia ''ARROW_DOWN'' []]) \<and>
         (cc = 51 \<and> \<not> shift dk \<longrightarrow>
            mk4_midi_event now ev dk h
            = done_with True
                (dk\<lparr>knob_bank := (knob_bank dk - 1) mod 3, mixer_synced := Map.empty\<rparr>) h
                (update_button_leds
                   (dk\<lparr>knob_bank := (knob_bank dk - 1) mod 3, mixer_synced := Map.empty\<rparr>))) \<and>
         (cc = 52 \<and> \<not> shift dk \<longrightarrow>
            mk4_midi_event now ev dk h
            = done_with True
                (dk\<lparr>knob_bank := (knob_bank dk + 1) mod 3, mixer_synced := Map.empty\<rparr>) h
                (update_button_leds
                   (dk\<lparr>knob_bank := (knob_bank dk + 1) mod 3, mixer_synced := Map.empty\<rparr>))) \<and>
         (cc = 51 \<and> shift dk \<longrightarrow>
            mk4_midi_event now ev dk h = done_with True dk h [SendCuia ''ARROW_UP'' []]) \<and>
         (cc = 52 \<and> shift dk \<longrightarrow>
            mk4_midi_event now ev dk h = done_with True dk h [SendCuia ''ARROW_DOWN'' []])"
  using mini_bank_cc [OF assms, of now dm h] mk4_bank_cc [OF assms, of now dk h]
  by (simp add: bank_button_def mk4_bank_reset_def Let_def)

theorem bank_switching_amended_witness:
  "mini_midi_event 0 [176, 51, 127] (mini_init\<lparr>knob_bank := 0\<rparr>) host0
   = done_with True (mini_init\<lparr>knob_bank := 2\<rparr>) host0
       (update_button_leds (mini_init\<lparr>knob_bank := 2\<rparr>)) \<and>
   mk4_midi_event 0 [176, 52, 127]
     (mk4_init\<lparr>knob_bank := 2, mixer_synced := [21 \<mapsto> True], last_zynpot_values := [22 \<mapsto> 9]\<rparr>)
     host0
   = done_with True
       (mk4_init\<lparr>knob_bank := 0, mixer_synced := Map.empty, last_zynpot_values := [22 \<mapsto> 9]\<rparr>)
       host0
       (update_button_leds
          (mk4_init\<lparr>knob_bank := 0, mixer_synced := Map.empty,
                     last_zynpot_values := [22 \<mapsto> 9]\<rparr>)) \<and>
   mk4_midi_event 0 [176, 51, 127] (mk4_init\<lparr>shift := True\<rparr>) host0
   = done_with True (mk4_init\<lparr>shift := True\<rparr>) host0 [SendCuia ''ARROW_UP'' []]"
proof -
  have down: "mini_midi_event 0 [176, 51, 127] (mini_init\<lparr>knob_bank := 0\<rparr>) host0
      = done_with True (mini_init\<lparr>knob_bank := 2\<rparr>) host0
          (update_button_leds (mini_init\<lparr>knob_bank := 2\<rparr>))"
    using bank_switching_amended
            [where ev = "[176, 51, 127]" and cc = 51 and v = 127 and now = 0 and h = host0
               and dm = "mini_init\<lparr>knob_bank := 0\<rparr>" and dk = mk4_init]
    by (simp add: mini_init_def)
  have up: "mk4_midi_event 0 [176, 52, 127]
        (mk4_init\<lparr>knob_bank := 2, mixer_synced := [21 \<mapsto> True],
                   last_zynpot_values := [22 \<mapsto> 9]\<rparr>) host0
      = done_with True
          (mk4_init\<lparr>knob_bank := 0, mixer_synced := Map.empty, last_zynpot_values := [22 \<mapsto> 9]\<rparr>)
          host0
          (update_button_leds
             (mk4_init\<lparr>knob_bank := 0, mixer_synced := Map.empty,
                        last_zynpot_values := [22 \<mapsto> 9]\<rparr>))"
    using bank_switching_amended
            [where ev = "[176, 52, 127]" and cc = 52 and v = 127 and now = 0 and h = host0
               and dm = mini_init
               and dk = "mk4_init\<lparr>knob_bank := 2, mixer_synced := [21 \<mapsto> True],
                                   last_zynpot_values := [22 \<mapsto> 9]\<rparr>"]
    by (simp add: mk4_init_def)
  have arrow: "mk4_midi_event 0 [176, 51, 127] (mk4_init\<lparr>shift := True\<rparr>) host0
      = done_with True (mk4_init\<lparr>shift := True\<rparr>) host0 [SendCuia ''ARROW_UP'' []]"
    using bank_switching_amended
            [where ev = "[176, 51, 127]" and cc = 51 and v = 127 and now = 0 and h = host0
               and dm = mini_init and dk = "mk4_init\<lparr>shift := True\<rparr>"]
    by (simp add: mk4_init_def)
  show ?thesis using down up arrow by simp
qed

subsection \<open>C6: debounce of the SELECT/BACK knob\<close>

lemma mini_select_back_event:
  assumes "3 \<le> length ev" "(ev ! 0 div 16) mod 16 = 11" "ev ! 1 mod 128 = 90"
    and "ev ! 2 mod 128 = v" "knob_bank d = 1"
  shows "mini_midi_event now ev d h = mini_select_back_knob now v d h"
  using assms by (simp add: mini_cc_decode mini_cc_event_def mini_knob_event_def)

lemma select_back_discard:
  "now - last_select_back_time d < 0.6 \<Longrightarrow>
   mini_select_back_knob now v d h = done_with True d h []"
  by (simp add: mini_select_back_knob_def)

lemma select_back_accept:
  "\<not> now - last_select_back_time d < 0.6 \<Longrightarrow>
   mini_select_back_knob now v d h
   = done_with True (d\<lparr>last_select_back_time := now\<rparr>) h
       (if v < 64 then [SendCuia ''BACK'' []]
        else if v > 64 then [SendCuia ''ZYNSWITCH'' [ArgInt 3, ArgStr ''S'']] else [])"
  by (simp add: mini_select_back_knob_def Let_def)

text \<open>
  C6, as the claim states it, fails on "two activations 700 ms or more apart both produce
  actions": the class sets the timestamp before it looks at the direction, and the
  centre value 64 matches neither direction. After an action at time 100, a message with
  value 64 at 100.7 is accepted, moves the timestamp to 100.7 and sends nothing; a turn
  at 101, one second after the last action, is then discarded.
\<close>

theorem select_back_debounce_counterexample:
  "mini_midi_event 100 [176, 90, 127] mini_init host0
   = done_with True (mini_init\<lparr>last_select_back_time := 100\<rparr>) host0
       [SendCuia ''ZYNSWITCH'' [ArgInt 3, ArgStr ''S'']] \<and>
   mini_midi_event (1007 / 10) [176, 90, 64] (mini_init\<lparr>last_select_back_time := 100\<rparr>) host0
   = done_with True (mini_init\<lparr>last_select_back_time := 1007 / 10\<rparr>) host0 [] \<and>
   mini_midi_event 101 [176, 90, 127] (mini_init\<lparr>last_select_back_time := 1007 / 10\<rparr>) host0
   = done_with True (mini_init\<lparr>last_select_back_time := 1007 / 10\<rparr>) host0 []"
  by (simp add: mini_midi_event_def mini_cc_event_def mini_knob_event_def
      mini_select_back_knob_def mini_init_def)

text \<open>
  C6, amended: for the SELECT/BACK knob (CC 90 in bank 1 of the transport variant), a
  message arriving less than 600 ms after the last accepted one is consumed and changes
  nothing (no host action, the timestamp as before); a message arriving 600 ms or more
  after it is accepted and sets the timestamp to its own time, and it sends one action
  when its value is not the centre value 64 (BACK below 64, a short ZYNSWITCH 3 above 64)
  and none at 64. Hence of two activations with values other than 64, the first accepted:
  when the second comes 700 ms or more later both send one action, and when it comes
  less than 600 ms later only the first does and the timestamp stays at the first. The
  timestamp changes on accepted messages only.
\<close>

theorem select_back_debounce_amended:
  fixes d :: "'a mini_driver_scheme"
  assumes "3 \<le> length ev" and "(ev ! 0 div 16) mod 16 = 11"
    and "ev ! 1 mod 128 = 90" and "ev ! 2 mod 128 = v"
    and "3 \<le> length evb" and "(evb ! 0 div 16) mod 16 = 11"
    and "evb ! 1 mod 128 = 90" and "evb ! 2 mod 128 = vb"
    and "knob_bank d = 1"
  shows "(now - last_select_back_time d < 0.6 \<longrightarrow>
            mini_midi_event now ev d h = done_with True d h []) \<and>
         (now - last_select_back_time d \<ge> 0.6 \<longrightarrow>
            mini_midi_event now ev d h
            = done_with True (d\<lparr>last_select_back_time := now\<rparr>) h
                (if v < 64 then [SendCuia ''BACK'' []]
                 else if v > 64 then [SendCuia ''ZYNSWITCH'' [ArgInt 3, ArgStr ''S'']]
                 else [])) \<and>
         (now - last_select_back_time d \<ge> 0.6 \<and> nowb - now \<ge> 0.7 \<and> v \<noteq> 64 \<and> vb \<noteq> 64 \<longrightarrow>
            (\<exists>o1 o2. mini_midi_event now ev d h = Inr o1 \<and> length (effects o1) = 1 \<and>
                     mini_midi_event nowb evb (drv o1) (hst o1) = Inr o2 \<and>
                     length (effects o2) = 1 \<and> handled o1 \<and> handled o2 \<and>
                     last_select_back_time (drv o2) = nowb)) \<and>
         (now - last_select_back_time d \<ge> 0.6 \<and> nowb - now < 0.6 \<and> v \<noteq> 64 \<longrightarrow>
            (\<exists>o1 o2. mini_midi_event now ev d h = Inr o1 \<and> length (effects o1) = 1 \<and>
                     mini_midi_event nowb evb (drv o1) (hst o1) = Inr o2 \<and>
                     effects o2 = [] \<and> handled o1 \<and> handled o2 \<and>
                     last_select_back_time (drv o2) = now))"
proof -
  have e1: "mini_midi_event now ev d h = mini_select_back_knob now v d h"
    by (rule mini_select_back_event [OF assms(1-4) assms(9)])
  have eb: "knob_bank d' = 1 \<Longrightarrow>
      mini_midi_event nowb evb d' h' = mini_select_back_knob nowb vb d' h'" for d' :: "'a mini_driver_scheme" and h'
    by (rule mini_select_back_event [OF assms(5-8)])
  have a: "now - last_select_back_time d < 0.6 \<longrightarrow>
      mini_midi_event now ev d h = done_with True d h []"
    by (simp add: e1 select_back_discard)
  have b: "now - last_select_back_time d \<ge> 0.6 \<longrightarrow>
      mini_midi_event now ev d h
      = done_with True (d\<lparr>last_select_back_time := now\<rparr>) h
          (if v < 64 then [SendCuia ''BACK'' []]
           else if v > 64 then [SendCuia ''ZYNSWITCH'' [ArgInt 3, ArgStr ''S'']] else [])"
    by (simp add: e1 select_back_accept)
  have c: "now - last_select_back_time d \<ge> 0.6 \<and> nowb - now \<ge> 0.7 \<and> v \<noteq> 64 \<and> vb \<noteq> 64 \<longrightarrow>
      (\<exists>o1 o2. mini_midi_event now ev d h = Inr o1 \<and> length (effects o1) = 1 \<and>
               mini_midi_event nowb evb (drv o1) (hst o1) = Inr o2 \<and>
               length (effects o2) = 1 \<and> handled o1 \<and> handled o2 \<and>
               last_select_back_time (drv o2) = nowb)"
    using assms(9) by (auto simp: e1 eb select_back_accept done_with_def)
  have f: "now - last_select_back_time d \<ge> 0.6 \<and> nowb - now < 0.6 \<and> v \<noteq> 64 \<longrightarrow>
      (\<exists>o1 o2. mini_midi_event now ev d h = Inr o1 \<and> length (effects o1) = 1 \<and>
               mini_midi_event nowb evb (drv o1) (hst o1) = Inr o2 \<and>
               effects o2 = [] \<and> handled o1 \<and> handled o2 \<and>
               last_select_back_time (drv o2) = now)"
    using assms(9) by (auto simp: e1 eb select_back_accept select_back_discard done_with_def)
  show ?thesis using a b c f by blast
qed

theorem select_back_debounce_amended_witness:
  "mini_midi_event 100 [176, 90, 127] mini_init host0
   = done_with True (mini_init\<lparr>last_select_back_time := 100\<rparr>) host0
       [SendCuia ''ZYNSWITCH'' [ArgInt 3, ArgStr ''S'']] \<and>
   mini_midi_event (502 / 5) [176, 90, 1] (mini_init\<lparr>last_select_back_time := 100\<rparr>) host0
   = done_with True (mini_init\<lparr>last_select_back_time := 100\<rparr>) host0 [] \<and>
   (\<exists>o1 o2. mini_midi_event 100 [176, 90, 127] mini_init host0 = Inr o1 \<and>
            length (effects o1) = 1 \<and>
            mini_midi_event (1007 / 10) [176, 90, 1] (drv o1) (hst o1) = Inr o2 \<and>
            length (effects o2) = 1 \<and> handled o1 \<and> handled o2 \<and>
            last_select_back_time (drv o2) = 1007 / 10) \<and>
   (\<exists>o1 o2. mini_midi_event 100 [176, 90, 127] mini_init host0 = Inr o1 \<and>
            length (effects o1) = 1 \<and>
            mini_midi_event (502 / 5) [176, 90, 1] (drv o1) (hst o1) = Inr o2 \<and>
            effects o2 = [] \<and> handled o1 \<and> handled o2 \<and>
            last_select_back_time (drv o2) = 100)"
proof -
  have p: "3 \<le> length [176, 90, 127::nat]" "([176, 90, 127::nat] ! 0 div 16) mod 16 = 11"
    "[176, 90, 127::nat] ! 1 mod 128 = 90" "[176, 90, 127::nat] ! 2 mod 128 = 127"
    by simp_all
  have q: "3 \<le> length [176, 90, 1::nat]" "([176, 90, 1::nat] ! 0 div 16) mod 16 = 11"
    "[176, 90, 1::nat] ! 1 mod 128 = 90" "[176, 90, 1::nat] ! 2 mod 128 = 1"
    by simp_all
  have kb: "knob_bank mini_init = 1" "knob_bank (mini_init\<lparr>last_select_back_time := 100\<rparr>) = 1"
    by (simp_all add: mini_init_def)
  note far = select_back_debounce_amended
      [where now = 100 and nowb = "1007 / 10" and h = host0, OF p q kb(1)]
  note near = select_back_debounce_amended
      [where now = 100 and nowb = "502 / 5" and h = host0, OF p q kb(1)]
  note again = select_back_debounce_amended
      [where now = "502 / 5" and nowb = 0 and h = host0, OF q q kb(2)]
  have t0: "100 - last_select_back_time mini_init \<ge> 0.6"
    by (simp add: mini_init_def)
  have t1: "(1007 / 10 :: real) - 100 \<ge> 0.7" and t2: "(502 / 5 :: real) - 100 < 0.6"
    by simp_all
  have t3: "502 / 5 - last_select_back_time (mini_init\<lparr>last_select_back_time := 100\<rparr>) < 0.6"
    by simp
  have n: "(127::nat) \<noteq> 64" "(1::nat) \<noteq> 64" by simp_all
  have first: "mini_midi_event 100 [176, 90, 127] mini_init host0
      = done_with True (mini_init\<lparr>last_select_back_time := 100\<rparr>) host0
          [SendCuia ''ZYNSWITCH'' [ArgInt 3, ArgStr ''S'']]"
    using far t0 by simp
  have early: "mini_midi_event (502 / 5) [176, 90, 1]
        (mini_init\<lparr>last_select_back_time := 100\<rparr>) host0
      = done_with True (mini_init\<lparr>last_select_back_time := 100\<rparr>) host0 []"
    using again t3 by blast
  have both: "\<exists>o1 o2. mini_midi_event 100 [176, 90, 127] mini_init host0 = Inr o1 \<and>
      length (effects o1) = 1 \<and>
      mini_midi_event (1007 / 10) [176, 90, 1] (drv o1) (hst o1) = Inr o2 \<and>
      length (effects o2) = 1 \<and> handled o1 \<and> handled o2 \<and>
      last_select_back_time (drv o2) = 1007 / 10"
    using far t0 t1 n by blast
  have one: "\<exists>o1 o2. mini_midi_event 100 [176, 90, 127] mini_init host0 = Inr o1 \<and>
      length (effects o1) = 1 \<and>
      mini_midi_event (502 / 5) [176, 90, 1] (drv o1) (hst o1) = Inr o2 \<and>
      effects o2 = [] \<and> handled o1 \<and> handled o2 \<and>
      last_select_back_time (drv o2) = 100"
    using near t0 t2 n by blast
  show ?thesis using first early both one by blast
qed

subsection \<open>C7: what the event decoder does on malformed input\<close>

lemma note_event_returns:
  assumes "has_chain_manager h" and "has_zynmixer h"
    and "\<And>i. chains h i \<noteq> LookupRaises \<and> chains h i \<noteq> Chain AttrMissing"
    and "\<And>c. solo h c \<noteq> None \<and> mute h c \<noteq> None"
  shows "\<exists>out. note_event (update_pad_leds on off) ev t n v d h = Inr out"
proof (cases "96 \<le> n \<and> n \<le> 119")
  case True
  then show ?thesis
    using note_event_pad [OF assms, of "update_pad_leds on off" n ev t v d]
      update_pad_leds_no_forward by blast
next
  case False
  then show ?thesis by (simp add: note_event_keyboard done_with_def)
qed

lemma press_release_returns: "\<exists>out. press_release idx led now cc v d h = Inr out"
  by (simp add: press_release_def done_with_def split: option.splits)

lemma zynswitch_event_returns: "\<exists>out. zynswitch_event now cc v d h = Inr out"
  using press_release_returns [of "zynswitch_index cc" False now cc v d h]
  by (simp add: zynswitch_event_def done_with_def)

lemma bank_button_returns: "\<exists>out. bank_button arrow step reset d h = Inr out"
  by (simp add: bank_button_def done_with_def Let_def)

lemma mini_knob_event_returns:
  assumes "has_chain_manager h" and "has_zynmixer h"
    and "\<And>i. chains h i \<noteq> LookupRaises \<and> chains h i \<noteq> Chain AttrMissing"
  shows "\<exists>out. mini_knob_event now ch cc v d h = Inr out"
proof -
  obtain r where r: "valid_chan h (cc - 84 - 1) = Inr r"
    using valid_chan_returns [OF assms(1) assms(3)] by blast
  have mixer: "\<exists>out. mini_mixer_knob cc v d h = Inr out"
    using r assms(2) by (cases r) (simp_all add: mini_mixer_knob_def done_with_def Let_def)
  have zynpot: "\<exists>out. mini_zynpot_knob cc v d h = Inr out"
    by (simp add: mini_zynpot_knob_def done_with_def Let_def)
  have preset: "\<exists>out. mini_preset_knob v d h = Inr out"
    by (simp add: mini_preset_knob_def done_with_def Let_def split: option.splits)
  have select: "\<exists>out. mini_select_back_knob now v d h = Inr out"
    by (simp add: mini_select_back_knob_def done_with_def Let_def)
  have arrow: "\<And>a b. \<exists>out. mini_arrow_knob a b v d h = Inr out"
    by (simp add: mini_arrow_knob_def done_with_def)
  show ?thesis
    using mixer zynpot preset select arrow
    by (simp add: mini_knob_event_def done_with_def Let_def)
qed

lemma mk4_knob_event_returns:
  assumes "has_chain_manager h" and "has_zynmixer h"
    and "\<And>i. chains h i \<noteq> LookupRaises \<and> chains h i \<noteq> Chain AttrMissing"
  shows "\<exists>out. mk4_knob_event ch cc v d h = Inr out"
proof -
  obtain r where r: "valid_chan h (cc - 20 - 1) = Inr r"
    using valid_chan_returns [OF assms(1) assms(3)] by blast
  have mixer: "\<exists>out. mk4_mixer_knob cc v d h = Inr out"
    using r assms(2) by (cases r) (simp_all add: mk4_mixer_knob_def done_with_def Let_def)
  have zynpot: "\<exists>out. mk4_zynpot_knob cc v d h = Inr out"
    by (simp add: mk4_zynpot_knob_def done_with_def Let_def split: option.splits)
  show ?thesis
    using mixer zynpot by (simp add: mk4_knob_event_def done_with_def Let_def)
qed

lemma mini_cc_event_returns:
  assumes "has_chain_manager h" and "has_zynmixer h"
    and "\<And>i. chains h i \<noteq> LookupRaises \<and> chains h i \<noteq> Chain AttrMissing"
  shows "\<exists>out. mini_cc_event now ch cc v d h = Inr out"
  using mini_knob_event_returns [OF assms, of now ch cc v d]
    press_release_returns [of 3 True now 104 v d h] zynswitch_event_returns [of now cc v d h]
    bank_button_returns [of "''ARROW_UP''" "- 1" "\<lambda>x. x" d h]
    bank_button_returns [of "''ARROW_DOWN''" 1 "\<lambda>x. x" d h]
  by (simp add: mini_cc_event_def transport_button_def done_with_def)

lemma mk4_cc_event_returns:
  assumes "has_chain_manager h" and "has_zynmixer h"
    and "\<And>i. chains h i \<noteq> LookupRaises \<and> chains h i \<noteq> Chain AttrMissing"
  shows "\<exists>out. mk4_cc_event now ch cc v d h = Inr out"
  using mk4_knob_event_returns [OF assms, of ch cc v d]
    press_release_returns [of 3 True now 105 v d h] zynswitch_event_returns [of now cc v d h]
    bank_button_returns [of "''ARROW_UP''" "- 1" mk4_bank_reset d h]
    bank_button_returns [of "''ARROW_DOWN''" 1 mk4_bank_reset d h]
  by (simp add: mk4_cc_event_def transport_button_def done_with_def)

lemma midi_event_short:
  "ev = [] \<or> length ev < bytes_read (ev ! 0) \<Longrightarrow>
   mini_midi_event now ev dm h = Inl IndexError \<and> mk4_midi_event now ev dk h = Inl IndexError"
  by (auto simp: mini_midi_event_def mk4_midi_event_def bytes_read_def Let_def
      split: if_splits)

lemma midi_event_unknown_kind:
  "ev \<noteq> [] \<Longrightarrow> (ev ! 0 div 16) mod 16 \<notin> {8, 9, 11, 12} \<Longrightarrow>
   mini_midi_event now ev dm h = done_with False dm h [] \<and>
   mk4_midi_event now ev dk h = done_with False dk h []"
  by (auto simp: mini_midi_event_def mk4_midi_event_def Let_def)

lemma midi_event_returns:
  assumes "has_chain_manager h" and "has_zynmixer h"
    and "\<And>i. chains h i \<noteq> LookupRaises \<and> chains h i \<noteq> Chain AttrMissing"
    and "\<And>c. solo h c \<noteq> None \<and> mute h c \<noteq> None"
    and "ev \<noteq> []" and "bytes_read (ev ! 0) \<le> length ev"
  shows "(\<exists>out. mini_midi_event now ev dm h = Inr out) \<and>
         (\<exists>out. mk4_midi_event now ev dk h = Inr out)"
proof -
  let ?t = "(ev ! 0 div 16) mod 16"
  consider (nt) "?t = 9 \<or> ?t = 8" | (cc) "?t = 11" | (pc) "?t = 12"
    | (other) "?t \<notin> {8, 9, 11, 12}" by auto
  then show ?thesis
  proof cases
    case nt
    then have l: "3 \<le> length ev" using assms(6) by (auto simp: bytes_read_def)
    show ?thesis
      using note_event_returns [OF assms(1-4), where d = dm and on = 14 and off = 118]
        note_event_returns [OF assms(1-4), where d = dk and on = 5 and off = 10]
      by (simp add: mini_note_decode [OF l nt] mk4_note_decode [OF l nt]
          mini_update_pad_leds_def mk4_update_pad_leds_def)
  next
    case cc
    then have l: "3 \<le> length ev" using assms(6) by (auto simp: bytes_read_def)
    show ?thesis
      using mini_cc_event_returns [OF assms(1-3), where d = dm]
        mk4_cc_event_returns [OF assms(1-3), where d = dk]
      by (simp add: mini_cc_decode [OF l cc] mk4_cc_decode [OF l cc])
  next
    case pc
    then have l: "2 \<le> length ev" using assms(6) by (auto simp: bytes_read_def)
    then show ?thesis
      using pc assms(5)
      by (auto simp: mini_midi_event_def mk4_midi_event_def done_with_def Let_def)
  next
    case other
    then show ?thesis
      using midi_event_unknown_kind [OF assms(5), of now dm h dk]
      by (simp add: done_with_def)
  qed
qed

text \<open>
  C7, as the claim states it, fails on truncated messages: \<open>midi_event\<close> indexes the event
  with no check of its length, so a lone note-on status byte raises \<open>IndexError\<close> at \<open>ev[1]\<close>,
  and so do an empty event and a control change without its value byte.
\<close>

theorem never_raises_counterexample:
  "mini_midi_event 0 [144] mini_init host0 = Inl IndexError \<and>
   mk4_midi_event 0 [144] mk4_init host0 = Inl IndexError \<and>
   mini_midi_event 0 [] mini_init host0 = Inl IndexError \<and>
   mk4_midi_event 0 [176, 21] mk4_init host0 = Inl IndexError"
  by (simp add: mini_midi_event_def mk4_midi_event_def)

text \<open>
  C7, amended: \<open>midi_event\<close> completes without an exception on every event that holds the
  bytes its kind reads (one status byte; two bytes for a program change; three for a
  note or a control change), given a host whose chain and mixer lookups do not raise;
  an event with an unknown status nibble, and a control change with an unmapped
  controller number and a value above 0, is returned as not handled, with no effect and
  no state change. A shorter event raises \<open>IndexError\<close>.
\<close>

theorem never_raises_amended:
  fixes dm :: "'a mini_driver_scheme" and dk :: "'b mk4_driver_scheme"
  assumes "has_chain_manager h" and "has_zynmixer h"
    and "\<And>i. chains h i \<noteq> LookupRaises \<and> chains h i \<noteq> Chain AttrMissing"
    and "\<And>c. solo h c \<noteq> None \<and> mute h c \<noteq> None"
  shows "(ev \<noteq> [] \<and> bytes_read (ev ! 0) \<le> length ev \<longrightarrow>
            (\<exists>out. mini_midi_event now ev dm h = Inr out) \<and>
            (\<exists>out. mk4_midi_event now ev dk h = Inr out)) \<and>
         (ev = [] \<or> length ev < bytes_read (ev ! 0) \<longrightarrow>
            mini_midi_event now ev dm h = Inl IndexError \<and>
            mk4_midi_event now ev dk h = Inl IndexError) \<and>
         (ev \<noteq> [] \<and> (ev ! 0 div 16) mod 16 \<notin> {8, 9, 11, 12} \<longrightarrow>
            mini_midi_event now ev dm h = done_with False dm h [] \<and>
            mk4_midi_event now ev dk h = done_with False dk h []) \<and>
         (3 \<le> length ev \<and> (ev ! 0 div 16) mod 16 = 11 \<and> 0 < ev ! 2 mod 128 \<and>
          ev ! 1 mod 128 \<notin> {0, 51, 52, 63, 74, 75, 76, 77, 102, 103, 104, 105, 106, 107, 115, 117}
          \<and> \<not> (84 < ev ! 1 mod 128 \<and> ev ! 1 mod 128 < 93) \<longrightarrow>
            mini_midi_event now ev dm h = done_with False dm h []) \<and>
         (3 \<le> length ev \<and> (ev ! 0 div 16) mod 16 = 11 \<and> 0 < ev ! 2 mod 128 \<and>
          ev ! 1 mod 128 \<notin> {0, 51, 52, 63, 74, 75, 76, 77, 102, 103, 104, 105, 106, 107, 115, 117}
          \<and> \<not> (20 < ev ! 1 mod 128 \<and> ev ! 1 mod 128 < 29) \<longrightarrow>
            mk4_midi_event now ev dk h = done_with False dk h [])"
proof -
  have a: "ev \<noteq> [] \<and> bytes_read (ev ! 0) \<le> length ev \<longrightarrow>
      (\<exists>out. mini_midi_event now ev dm h = Inr out) \<and>
      (\<exists>out. mk4_midi_event now ev dk h = Inr out)"
    using midi_event_returns [OF assms, of ev now dm dk] by blast
  have b: "ev = [] \<or> length ev < bytes_read (ev ! 0) \<longrightarrow>
      mini_midi_event now ev dm h = Inl IndexError \<and>
      mk4_midi_event now ev dk h = Inl IndexError"
    using midi_event_short [of ev now dm h dk] by blast
  have c: "ev \<noteq> [] \<and> (ev ! 0 div 16) mod 16 \<notin> {8, 9, 11, 12} \<longrightarrow>
      mini_midi_event now ev dm h = done_with False dm h [] \<and>
      mk4_midi_event now ev dk h = done_with False dk h []"
    using midi_event_unknown_kind [of ev now dm h dk] by blast
  have d: "3 \<le> length ev \<and> (ev ! 0 div 16) mod 16 = 11 \<and> 0 < ev ! 2 mod 128 \<and>
      ev ! 1 mod 128 \<notin> {0, 51, 52, 63, 74, 75, 76, 77, 102, 103, 104, 105, 106, 107, 115, 117}
      \<and> \<not> (84 < ev ! 1 mod 128 \<and> ev ! 1 mod 128 < 93) \<longrightarrow>
      mini_midi_event now ev dm h = done_with False dm h []"
    by (auto simp: mini_cc_decode mini_cc_event_def mini_button_commands_def)
  have e: "3 \<le> length ev \<and> (ev ! 0 div 16) mod 16 = 11 \<and> 0 < ev ! 2 mod 128 \<and>
      ev ! 1 mod 128 \<notin> {0, 51, 52, 63, 74, 75, 76, 77, 102, 103, 104, 105, 106, 107, 115, 117}
      \<and> \<not> (20 < ev ! 1 mod 128 \<and> ev ! 1 mod 128 < 29) \<longrightarrow>
      mk4_midi_event now ev dk h = done_with False dk h []"
    by (auto simp: mk4_cc_decode mk4_cc_event_def mk4_button_commands_def)
  show ?thesis using a b c d e by blast
qed

theorem never_raises_amended_witness:
  "(\<exists>out. mini_midi_event 0 [144, 96, 100] mini_init host0 = Inr out) \<and>
   (\<exists>out. mk4_midi_event 0 [192, 5] mk4_init host0 = Inr out) \<and>
   mini_midi_event 0 [176, 85] mini_init host0 = Inl IndexError \<and>
   mk4_midi_event 0 [240, 1, 2] mk4_init host0 = done_with False mk4_init host0 [] \<and>
   mini_midi_event 0 [176, 1, 5] mini_init host0 = done_with False mini_init host0 [] \<and>
   mk4_midi_event 0 [176, 1, 5] mk4_init host0 = done_with False mk4_init host0 []"
proof -
  have h: "has_chain_manager host0" "has_zynmixer host0"
    "\<And>i. chains host0 i \<noteq> LookupRaises \<and> chains host0 i \<noteq> Chain AttrMissing"
    "\<And>c. solo host0 c \<noteq> None \<and> mute host0 c \<noteq> None"
    by (simp_all add: host0_def)
  note t = never_raises_amended [OF h, where now = 0 and dm = mini_init and dk = mk4_init]
  have a: "\<exists>out. mini_midi_event 0 [144, 96, 100] mini_init host0 = Inr out"
    using t [of "[144, 96, 100]"] by (simp add: bytes_read_def)
  have b: "\<exists>out. mk4_midi_event 0 [192, 5] mk4_init host0 = Inr out"
    using t [of "[192, 5]"] by (simp add: bytes_read_def)
  have c: "mini_midi_event 0 [176, 85] mini_init host0 = Inl IndexError"
    using t [of "[176, 85]"] by (simp add: bytes_read_def)
  have d: "mk4_midi_event 0 [240, 1, 2] mk4_init host0 = done_with False mk4_init host0 []"
    using t [of "[240, 1, 2]"] by simp
  have e: "mini_midi_event 0 [176, 1, 5] mini_init host0 = done_with False mini_init host0 []"
    and f: "mk4_midi_event 0 [176, 1, 5] mk4_init host0 = done_with False mk4_init host0 []"
    using t [of "[176, 1, 5]"] by simp_all
  show ?thesis using a b c d e f by blast
qed


subsection \<open>C8: keyboard notes and pad notes\<close>

text \<open>
  C8, as the claim states it, fails on "does not consume it": a keyboard note is written
  to the host's MIDI routing and then reported handled (the branch ends in
  \<open>return True\<close>), as middle C shows.
\<close>

theorem keyboard_note_counterexample:
  "mini_midi_event 0 [144, 60, 100] mini_init host0
   = done_with True mini_init host0 [WriteZynmidi [144, 60, 100]] \<and>
   mk4_midi_event 0 [144, 60, 100] mk4_init host0
   = done_with True mk4_init host0 [WriteZynmidi [144, 60, 100]] \<and>
   (case mini_midi_event 0 [144, 60, 100] mini_init host0 of
      Inl e \<Rightarrow> False | Inr out \<Rightarrow> handled out)"
  by (simp add: mini_midi_event_def mk4_midi_event_def note_event_def done_with_def)

text \<open>
  C8, amended: for every note-on or note-off event whose note number is outside
  \<open>[96,119]\<close>, \<open>midi_event\<close> writes the raw event unmodified to the host's MIDI routing, does
  nothing else, and reports the event handled (returns \<open>True\<close>); every note event with a
  note number in \<open>[96,119]\<close> is reported handled and never forwarded (given a host whose
  chain and mixer lookups do not raise).
\<close>

theorem keyboard_note_amended:
  fixes dm :: "'a mini_driver_scheme" and dk :: "'b mk4_driver_scheme"
  assumes "3 \<le> length ev" and "(ev ! 0 div 16) mod 16 = 9 \<or> (ev ! 0 div 16) mod 16 = 8"
    and "ev ! 1 mod 128 = n"
  shows "(\<not> (96 \<le> n \<and> n \<le> 119) \<longrightarrow>
            mini_midi_event now ev dm h = done_with True dm h [WriteZynmidi ev] \<and>
            mk4_midi_event now ev dk h = done_with True dk h [WriteZynmidi ev]) \<and>
         (96 \<le> n \<and> n \<le> 119 \<and> has_chain_manager h \<and> has_zynmixer h \<and>
          (\<forall>i. chains h i \<noteq> LookupRaises \<and> chains h i \<noteq> Chain AttrMissing) \<and>
          (\<forall>c. solo h c \<noteq> None \<and> mute h c \<noteq> None) \<longrightarrow>
            (\<exists>out. mini_midi_event now ev dm h = Inr out \<and> handled out \<and>
                   (\<forall>x. WriteZynmidi x \<notin> set (effects out))) \<and>
            (\<exists>out. mk4_midi_event now ev dk h = Inr out \<and> handled out \<and>
                   (\<forall>x. WriteZynmidi x \<notin> set (effects out))))"
proof -
  note dm = mini_note_decode [OF assms(1,2), of now dm h]
  note dk = mk4_note_decode [OF assms(1,2), of now dk h]
  have key: "\<not> (96 \<le> n \<and> n \<le> 119) \<longrightarrow>
      mini_midi_event now ev dm h = done_with True dm h [WriteZynmidi ev] \<and>
      mk4_midi_event now ev dk h = done_with True dk h [WriteZynmidi ev]"
    using assms(3) by (simp add: dm dk note_event_keyboard)
  have pad: "96 \<le> n \<and> n \<le> 119 \<and> has_chain_manager h \<and> has_zynmixer h \<and>
      (\<forall>i. chains h i \<noteq> LookupRaises \<and> chains h i \<noteq> Chain AttrMissing) \<and>
      (\<forall>c. solo h c \<noteq> None \<and> mute h c \<noteq> None) \<longrightarrow>
      (\<exists>out. mini_midi_event now ev dm h = Inr out \<and> handled out \<and>
             (\<forall>x. WriteZynmidi x \<notin> set (effects out))) \<and>
      (\<exists>out. mk4_midi_event now ev dk h = Inr out \<and> handled out \<and>
             (\<forall>x. WriteZynmidi x \<notin> set (effects out)))"
  proof (intro impI)
    assume a: "96 \<le> n \<and> n \<le> 119 \<and> has_chain_manager h \<and> has_zynmixer h \<and>
      (\<forall>i. chains h i \<noteq> LookupRaises \<and> chains h i \<noteq> Chain AttrMissing) \<and>
      (\<forall>c. solo h c \<noteq> None \<and> mute h c \<noteq> None)"
    have nf: "\<And>x (d' :: 'c driver_scheme) h'. WriteZynmidi x \<notin> set (mini_update_pad_leds d' h')"
         "\<And>x (d' :: 'c driver_scheme) h'. WriteZynmidi x \<notin> set (mk4_update_pad_leds d' h')"
      by (simp_all add: mini_update_pad_leds_def mk4_update_pad_leds_def
          update_pad_leds_no_forward)
    have "\<exists>out. note_event mini_update_pad_leds ev ((ev ! 0 div 16) mod 16) n
             (ev ! 2 mod 128) dm h = Inr out \<and> handled out \<and>
             (\<forall>x. WriteZynmidi x \<notin> set (effects out))"
      using a by (intro note_event_pad nf) simp_all
    moreover have "\<exists>out. note_event mk4_update_pad_leds ev ((ev ! 0 div 16) mod 16) n
             (ev ! 2 mod 128) dk h = Inr out \<and> handled out \<and>
             (\<forall>x. WriteZynmidi x \<notin> set (effects out))"
      using a by (intro note_event_pad nf) simp_all
    ultimately show "(\<exists>out. mini_midi_event now ev dm h = Inr out \<and> handled out \<and>
             (\<forall>x. WriteZynmidi x \<notin> set (effects out))) \<and>
      (\<exists>out. mk4_midi_event now ev dk h = Inr out \<and> handled out \<and>
             (\<forall>x. WriteZynmidi x \<notin> set (effects out)))"
      using assms(3) by (simp add: dm dk)
  qed
  show ?thesis using key pad by blast
qed

theorem keyboard_note_amended_witness:
  "mk4_midi_event 0 [128, 120, 0] mk4_init host0
   = done_with True mk4_init host0 [WriteZynmidi [128, 120, 0]] \<and>
   (\<exists>out. mini_midi_event 0 [144, 96, 100] mini_init host0 = Inr out \<and> handled out \<and>
          (\<forall>x. WriteZynmidi x \<notin> set (effects out))) \<and>
   (\<exists>out. mk4_midi_event 0 [128, 119, 0] mk4_init host0 = Inr out \<and> handled out \<and>
          (\<forall>x. WriteZynmidi x \<notin> set (effects out)))"
proof -
  have h: "has_chain_manager host0 \<and> has_zynmixer host0 \<and>
      (\<forall>i. chains host0 i \<noteq> LookupRaises \<and> chains host0 i \<noteq> Chain AttrMissing) \<and>
      (\<forall>c. solo host0 c \<noteq> None \<and> mute host0 c \<noteq> None)"
    by (simp add: host0_def)
  have a: "mk4_midi_event 0 [128, 120, 0] mk4_init host0
      = done_with True mk4_init host0 [WriteZynmidi [128, 120, 0]]"
    using keyboard_note_amended
            [where ev = "[128, 120, 0]" and n = 120 and now = 0 and h = host0
               and dm = mini_init and dk = mk4_init]
    by simp
  have b: "\<exists>out. mini_midi_event 0 [144, 96, 100] mini_init host0 = Inr out \<and> handled out \<and>
      (\<forall>x. WriteZynmidi x \<notin> set (effects out))"
    using keyboard_note_amended
            [where ev = "[144, 96, 100]" and n = 96 and now = 0 and h = host0
               and dm = mini_init and dk = mk4_init] h
    by simp
  have c: "\<exists>out. mk4_midi_event 0 [128, 119, 0] mk4_init host0 = Inr out \<and> handled out \<and>
      (\<forall>x. WriteZynmidi x \<notin> set (effects out))"
    using keyboard_note_amended
            [where ev = "[128, 119, 0]" and n = 119 and now = 0 and h = host0
               and dm = mini_init and dk = mk4_init] h
    by simp
  show ?thesis using a b c by blast
qed


subsection \<open>C9: the LED refresh degrades per position\<close>

lemma update_pad_leds_writes:
  assumes "idev_out d = Some out" "has_chain_manager h" "has_zynmixer h"
  shows "length (update_pad_leds on off d h) = 16"
    and "i < 8 \<Longrightarrow> update_pad_leds on off d h ! i
                  = DevSendNoteOn (Some out) 0 (96 + i) (solo_vel on off h i)"
    and "i < 8 \<Longrightarrow> update_pad_leds on off d h ! (8 + i)
                  = DevSendNoteOn (Some out) 0 (112 + i) (mute_vel h i)"
  using assms by (simp_all add: update_pad_leds_def nth_append)

lemma vel_off:
  assumes "chains h i = LookupRaises \<or> chains h i = NoChain \<or> chains h i = Chain AttrMissing \<or>
           chains h i = Chain AttrNone \<or> (\<exists>c. chains h i = Chain (AttrChan c) \<and> 17 \<le> c)"
  shows "solo_vel on off h i = 0 \<and> mute_vel h i = 0"
  using assms by (auto simp: solo_vel_def mute_vel_def)

lemma vel_on:
  assumes "chains h i = Chain (AttrChan c)" "c < 17"
  shows "solo_vel on off h i = (case solo h c of None \<Rightarrow> 0 | Some b \<Rightarrow> if b then on else off)"
    and "mute_vel h i = (case mute h c of None \<Rightarrow> 0 | Some b \<Rightarrow> if b then 5 else 64)"
  using assms by (simp_all add: solo_vel_def mute_vel_def)

text \<open>
  C9: a pad-LED refresh of a driver with an output device (and with its chain manager and
  mixer) writes exactly sixteen note-ons, the solo pads 96..103 then the mute pads
  112..119, whatever the lookups do. The velocity at position \<open>i\<close> depends on the lookups of
  that position only: it is 0 when the position has no chain, the lookup raises, the
  chain has no \<open>mixer_chan\<close>, the channel is \<open>None\<close> or not below 17, or the mixer query
  raises; otherwise it is the code of the channel's solo state (14 or 118 in the transport
  variant, 5 or 10 in the pickup variant) and mute state (5 or 64).
\<close>

theorem pad_leds_degrade:
  fixes d :: "'a driver_scheme"
  assumes "idev_out d = Some out" and "has_chain_manager h" and "has_zynmixer h"
  shows "length (mini_update_pad_leds d h) = 16 \<and> length (mk4_update_pad_leds d h) = 16 \<and>
         (\<forall>i<8.
            mini_update_pad_leds d h ! i
            = DevSendNoteOn (Some out) 0 (96 + i) (solo_vel 14 118 h i) \<and>
            mini_update_pad_leds d h ! (8 + i)
            = DevSendNoteOn (Some out) 0 (112 + i) (mute_vel h i) \<and>
            mk4_update_pad_leds d h ! i
            = DevSendNoteOn (Some out) 0 (96 + i) (solo_vel 5 10 h i) \<and>
            mk4_update_pad_leds d h ! (8 + i)
            = DevSendNoteOn (Some out) 0 (112 + i) (mute_vel h i) \<and>
            (chains h i = LookupRaises \<or> chains h i = NoChain \<or>
             chains h i = Chain AttrMissing \<or> chains h i = Chain AttrNone \<or>
             (\<exists>c. chains h i = Chain (AttrChan c) \<and> 17 \<le> c) \<longrightarrow>
               solo_vel 14 118 h i = 0 \<and> solo_vel 5 10 h i = 0 \<and> mute_vel h i = 0) \<and>
            (\<forall>c. chains h i = Chain (AttrChan c) \<and> c < 17 \<longrightarrow>
               solo_vel 14 118 h i
               = (case solo h c of None \<Rightarrow> 0 | Some b \<Rightarrow> if b then 14 else 118) \<and>
               solo_vel 5 10 h i
               = (case solo h c of None \<Rightarrow> 0 | Some b \<Rightarrow> if b then 5 else 10) \<and>
               mute_vel h i
               = (case mute h c of None \<Rightarrow> 0 | Some b \<Rightarrow> if b then 5 else 64)))"
  using update_pad_leds_writes [OF assms] vel_off [of h] vel_on [of h]
  by (simp add: mini_update_pad_leds_def mk4_update_pad_leds_def)

theorem pad_leds_degrade_witness:
  "length (mini_update_pad_leds mini_init host1) = 16 \<and>
   mini_update_pad_leds mini_init host1 ! 0 = DevSendNoteOn (Some 0) 0 96 14 \<and>
   mini_update_pad_leds mini_init host1 ! 1 = DevSendNoteOn (Some 0) 0 97 0 \<and>
   mini_update_pad_leds mini_init host1 ! 2 = DevSendNoteOn (Some 0) 0 98 0 \<and>
   mini_update_pad_leds mini_init host1 ! 3 = DevSendNoteOn (Some 0) 0 99 0 \<and>
   length (mk4_update_pad_leds mk4_init host1) = 16 \<and>
   mk4_update_pad_leds mk4_init host1 ! 0 = DevSendNoteOn (Some 0) 0 96 5 \<and>
   mk4_update_pad_leds mk4_init host1 ! 8 = DevSendNoteOn (Some 0) 0 112 64 \<and>
   mk4_update_pad_leds mk4_init host1 ! 11 = DevSendNoteOn (Some 0) 0 115 0"
proof -
  have a: "idev_out mini_init = Some 0" "has_chain_manager host1" "has_zynmixer host1"
    and b: "idev_out mk4_init = Some 0"
    by (simp_all add: mini_init_def mk4_init_def host1_def)
  note t = pad_leds_degrade [OF a]
  note u = pad_leds_degrade [OF b a(2,3)]
  have c: "chains host1 0 = Chain (AttrChan 0)" "chains host1 1 = Chain (AttrChan 20)"
    "chains host1 2 = Chain AttrMissing" "chains host1 3 = LookupRaises"
    "solo host1 0 = Some True" "mute host1 0 = Some False"
    by (simp_all add: host1_def)
  have p0: "mini_update_pad_leds mini_init host1 ! 0 = DevSendNoteOn (Some 0) 0 96 14"
    using t [THEN conjunct2, THEN conjunct2, rule_format, of 0] c by simp
  have p1: "mini_update_pad_leds mini_init host1 ! 1 = DevSendNoteOn (Some 0) 0 97 0"
    using t [THEN conjunct2, THEN conjunct2, rule_format, of 1] c by simp
  have p2: "mini_update_pad_leds mini_init host1 ! 2 = DevSendNoteOn (Some 0) 0 98 0"
    using t [THEN conjunct2, THEN conjunct2, rule_format, of 2] c by simp
  have p3: "mini_update_pad_leds mini_init host1 ! 3 = DevSendNoteOn (Some 0) 0 99 0"
    using t [THEN conjunct2, THEN conjunct2, rule_format, of 3] c by simp
  have q0: "mk4_update_pad_leds mk4_init host1 ! 0 = DevSendNoteOn (Some 0) 0 96 5"
    "mk4_update_pad_leds mk4_init host1 ! 8 = DevSendNoteOn (Some 0) 0 112 64"
    using u [THEN conjunct2, THEN conjunct2, rule_format, of 0] c by simp_all
  have q3: "mk4_update_pad_leds mk4_init host1 ! 11 = DevSendNoteOn (Some 0) 0 115 0"
    using u [THEN conjunct2, THEN conjunct2, rule_format, of 3] c by simp
  show ?thesis using t u p0 p1 p2 p3 q0 q3 by simp
qed


subsection \<open>C10: the last branch of the control-change chain\<close>

text \<open>
  C10: a control change that no earlier branch takes (its controller number is not the
  shift CC 63, not the hold button CC 104 of the transport variant or CC 105 of the pickup
  variant, not a knob, not CC 74..77) and whose controller number is 0 or whose value is 0
  is reported handled, with no host action, no device write and no change of the driver
  or the host.
\<close>

theorem cc_zero_consumed:
  fixes dm :: "'a mini_driver_scheme" and dk :: "'b mk4_driver_scheme"
  assumes "3 \<le> length ev" and "(ev ! 0 div 16) mod 16 = 11"
    and "ev ! 1 mod 128 = cc" and "ev ! 2 mod 128 = v"
    and "cc = 0 \<or> v = 0"
  shows "(cc \<notin> {63, 104, 74, 75, 76, 77} \<and> \<not> (84 < cc \<and> cc < 93) \<longrightarrow>
            mini_midi_event now ev dm h = done_with True dm h []) \<and>
         (cc \<notin> {63, 105, 74, 75, 76, 77} \<and> \<not> (20 < cc \<and> cc < 29) \<longrightarrow>
            mk4_midi_event now ev dk h = done_with True dk h [])"
proof (cases "v = 0")
  case True
  then show ?thesis
    using assms(3,4)
    by (simp add: mini_cc_decode [OF assms(1,2)] mk4_cc_decode [OF assms(1,2)]
        mini_cc_event_def mk4_cc_event_def)
next
  case False
  then have "cc = 0" using assms(5) by simp
  then show ?thesis
    using assms(3,4) False
    by (simp add: mini_cc_decode [OF assms(1,2)] mk4_cc_decode [OF assms(1,2)]
        mini_cc_event_def mk4_cc_event_def mini_button_commands_def
        mk4_button_commands_def)
qed

theorem cc_zero_consumed_witness:
  "mini_midi_event 0 [176, 107, 0] mini_init host0 = done_with True mini_init host0 [] \<and>
   mk4_midi_event 0 [176, 51, 0] mk4_init host0 = done_with True mk4_init host0 [] \<and>
   mini_midi_event 0 [176, 0, 9] mini_init host0 = done_with True mini_init host0 [] \<and>
   mk4_midi_event 0 [176, 0, 9] mk4_init host0 = done_with True mk4_init host0 []"
proof -
  have a: "mini_midi_event 0 [176, 107, 0] mini_init host0 = done_with True mini_init host0 []"
    using cc_zero_consumed
            [where ev = "[176, 107, 0]" and cc = 107 and v = 0 and now = 0 and h = host0
               and dm = mini_init and dk = mk4_init]
    by simp
  have b: "mk4_midi_event 0 [176, 51, 0] mk4_init host0 = done_with True mk4_init host0 []"
    using cc_zero_consumed
            [where ev = "[176, 51, 0]" and cc = 51 and v = 0 and now = 0 and h = host0
               and dm = mini_init and dk = mk4_init]
    by simp
  have c: "mini_midi_event 0 [176, 0, 9] mini_init host0 = done_with True mini_init host0 []"
    and d: "mk4_midi_event 0 [176, 0, 9] mk4_init host0 = done_with True mk4_init host0 []"
    using cc_zero_consumed
            [where ev = "[176, 0, 9]" and cc = 0 and v = 9 and now = 0 and h = host0
               and dm = mini_init and dk = mk4_init]
    by simp_all
  show ?thesis using a b c d by simp
qed

end
